theory Spec2Isabelle
  imports Complex_Main "HOL-Library.Char_ord" "HOL-Library.List_Lexorder" "HOL-Library.Sublist"
    "HOL-Library.Multiset"
begin

section \<open>Floating-point cells\<close>

text \<open>
  The indicator functions and the screener work on pandas/numpy float64 values. A cell is
  modelled as a finite number, an infinity or NaN. Finite arithmetic is exact (type
  \<open>real\<close>): rounding is not modelled. The special values follow IEEE 754 as numpy
  applies it: a division by zero does not raise, it yields an infinity or NaN; every
  comparison with NaN is false. Signed zeros are not modelled: a zero divisor counts as
  \<open>+0\<close>.
\<close>

datatype pyfloat = Fin real | PInf | NInf | NaN

fun pf_neg :: "pyfloat \<Rightarrow> pyfloat" where
  "pf_neg (Fin x) = Fin (- x)"
| "pf_neg PInf = NInf"
| "pf_neg NInf = PInf"
| "pf_neg NaN = NaN"

fun pf_add :: "pyfloat \<Rightarrow> pyfloat \<Rightarrow> pyfloat" where
  "pf_add (Fin x) (Fin y) = Fin (x + y)"
| "pf_add (Fin x) PInf = PInf"
| "pf_add (Fin x) NInf = NInf"
| "pf_add PInf (Fin y) = PInf"
| "pf_add PInf PInf = PInf"
| "pf_add NInf (Fin y) = NInf"
| "pf_add NInf NInf = NInf"
| "pf_add PInf NInf = NaN"
| "pf_add NInf PInf = NaN"
| "pf_add NaN b = NaN"
| "pf_add a NaN = NaN"

definition pf_sub :: "pyfloat \<Rightarrow> pyfloat \<Rightarrow> pyfloat" where
  "pf_sub a b = pf_add a (pf_neg b)"

definition inf_of_sign :: "real \<Rightarrow> pyfloat" where
  "inf_of_sign s = (if s = 0 then NaN else if 0 < s then PInf else NInf)"

fun pf_mul :: "pyfloat \<Rightarrow> pyfloat \<Rightarrow> pyfloat" where
  "pf_mul (Fin x) (Fin y) = Fin (x * y)"
| "pf_mul (Fin x) PInf = inf_of_sign x"
| "pf_mul (Fin x) NInf = inf_of_sign (- x)"
| "pf_mul PInf (Fin y) = inf_of_sign y"
| "pf_mul NInf (Fin y) = inf_of_sign (- y)"
| "pf_mul PInf PInf = PInf"
| "pf_mul NInf NInf = PInf"
| "pf_mul PInf NInf = NInf"
| "pf_mul NInf PInf = NInf"
| "pf_mul NaN b = NaN"
| "pf_mul a NaN = NaN"

fun pf_div :: "pyfloat \<Rightarrow> pyfloat \<Rightarrow> pyfloat" where
  "pf_div (Fin x) (Fin y) = (if y = 0 then inf_of_sign x else Fin (x / y))"
| "pf_div (Fin x) PInf = Fin 0"
| "pf_div (Fin x) NInf = Fin 0"
| "pf_div PInf (Fin y) = (if 0 \<le> y then PInf else NInf)"
| "pf_div NInf (Fin y) = (if 0 \<le> y then NInf else PInf)"
| "pf_div PInf PInf = NaN"
| "pf_div PInf NInf = NaN"
| "pf_div NInf PInf = NaN"
| "pf_div NInf NInf = NaN"
| "pf_div NaN b = NaN"
| "pf_div a NaN = NaN"

fun pf_less :: "pyfloat \<Rightarrow> pyfloat \<Rightarrow> bool" where
  "pf_less (Fin x) (Fin y) = (x < y)"
| "pf_less (Fin x) PInf = True"
| "pf_less NInf (Fin y) = True"
| "pf_less NInf PInf = True"
| "pf_less a b = False"

fun pf_le :: "pyfloat \<Rightarrow> pyfloat \<Rightarrow> bool" where
  "pf_le (Fin x) (Fin y) = (x \<le> y)"
| "pf_le (Fin x) PInf = True"
| "pf_le NInf (Fin y) = True"
| "pf_le NInf PInf = True"
| "pf_le PInf PInf = True"
| "pf_le NInf NInf = True"
| "pf_le a b = False"

text \<open>Python's truth value of a float: zero is false, everything else (NaN too) is true.\<close>

fun pf_truthy :: "pyfloat \<Rightarrow> bool" where
  "pf_truthy (Fin x) = (x \<noteq> 0)"
| "pf_truthy a = True"

section \<open>Volume profile (app.py)\<close>

datatype py_error = ValueError | IndexError | KeyError

text \<open>\<open>Series.min()\<close> and \<open>Series.max()\<close>: NaN on an empty series.\<close>

definition series_min :: "real list \<Rightarrow> pyfloat" where
  "series_min xs = (case xs of [] \<Rightarrow> NaN | x # r \<Rightarrow> Fin (fold min r x))"

definition series_max :: "real list \<Rightarrow> pyfloat" where
  "series_max xs = (case xs of [] \<Rightarrow> NaN | x # r \<Rightarrow> Fin (fold max r x))"

text \<open>
  \<open>np.linspace(start, stop, num)\<close> with the default \<open>endpoint=True\<close>: \<open>num\<close> samples
  \<open>i * step + start\<close> with \<open>step = (stop - start) / (num - 1)\<close>, the last sample set to
  \<open>stop\<close>; with a single sample the divisor is 0 and the sample is
  \<open>0 * (stop - start) + start\<close>; a negative \<open>num\<close> raises ValueError.
\<close>

definition linspace :: "pyfloat \<Rightarrow> pyfloat \<Rightarrow> int \<Rightarrow> py_error + pyfloat list" where
  "linspace start stop num =
     (if num < 0 then Inl ValueError
      else let n = nat num; divisor = n - 1; delta = pf_sub stop start
           in Inr (map (\<lambda>i. if 1 < n \<and> i = n - 1 then stop
                             else if 0 < divisor
                             then pf_add (pf_mul (Fin (real i)) (pf_div delta (Fin (real divisor)))) start
                             else pf_add (pf_mul (Fin (real i)) delta) start) [0..<n]))"

record vp_row =
  vp_price :: pyfloat
  vp_volume :: int

text \<open>
  One bucket of the loop body: the bars whose close lies in \<open>[level_low, level_high)\<close>,
  and the sum of their volumes. \<open>close\<close> and \<open>volume\<close> are two columns of one frame,
  so they have the same length.
\<close>

definition level_volume :: "real list \<Rightarrow> int list \<Rightarrow> pyfloat \<Rightarrow> pyfloat \<Rightarrow> int" where
  "level_volume close volume level_low level_high =
     sum_list (map snd (filter (\<lambda>(c, v). pf_le level_low (Fin c) \<and> pf_less (Fin c) level_high)
                               (zip close volume)))"

definition volume_profile :: "real list \<Rightarrow> int list \<Rightarrow> int \<Rightarrow> py_error + vp_row list" where
  "volume_profile close volume bins =
     (case linspace (series_min close) (series_max close) bins of
        Inl e \<Rightarrow> Inl e
      | Inr price_levels \<Rightarrow>
          Inr (map (\<lambda>i. let level_low = price_levels ! i; level_high = price_levels ! (i + 1)
                         in \<lparr> vp_price = pf_div (pf_add level_low level_high) (Fin 2),
                              vp_volume = level_volume close volume level_low level_high \<rparr>)
                   [0..<length price_levels - 1]))"

definition total_bucket_volume :: "py_error + vp_row list \<Rightarrow> int" where
  "total_bucket_volume r = (case r of Inl e \<Rightarrow> 0 | Inr rows \<Rightarrow> sum_list (map vp_volume rows))"

section \<open>Python lists: loops that may raise, and \<open>list.sort\<close>\<close>

text \<open>
  A loop body either raises (\<open>Inl\<close>), executes \<open>continue\<close> (\<open>Inr None\<close>) or appends one
  row to the result list (\<open>Inr (Some row)\<close>). The loop stops at the first exception.
\<close>

fun for_each :: "('a \<Rightarrow> py_error + 'b option) \<Rightarrow> 'a list \<Rightarrow> py_error + 'b list" where
  "for_each body [] = Inr []"
| "for_each body (x # xs) =
     (case body x of
        Inl e \<Rightarrow> Inl e
      | Inr r \<Rightarrow>
          (case for_each body xs of
             Inl e \<Rightarrow> Inl e
           | Inr rows \<Rightarrow> Inr ((case r of None \<Rightarrow> [] | Some row \<Rightarrow> [row]) @ rows)))"

text \<open>What the body contributes for one element: the row it appends, if any.\<close>

definition pick :: "('a \<Rightarrow> py_error + 'b option) \<Rightarrow> 'a \<Rightarrow> 'b option" where
  "pick body x = (case body x of Inl e \<Rightarrow> None | Inr r \<Rightarrow> r)"

text \<open>
  \<open>list.sort(key=k)\<close> is a stable sort that compares keys with \<open><\<close> only; the model is
  the stable insertion sort, parametrised by the comparison of the keys.
  \<open>list.sort(key=k, reverse=True)\<close> reverses the list, sorts it and reverses the result,
  as CPython does, so that equal keys keep their original order in both directions.
\<close>

fun insort_lt :: "('k \<Rightarrow> 'k \<Rightarrow> bool) \<Rightarrow> ('a \<Rightarrow> 'k) \<Rightarrow> 'a \<Rightarrow> 'a list \<Rightarrow> 'a list" where
  "insort_lt lt key x [] = [x]"
| "insort_lt lt key x (y # ys) =
     (if lt (key y) (key x) then y # insort_lt lt key x ys else x # y # ys)"

definition py_sort :: "('k \<Rightarrow> 'k \<Rightarrow> bool) \<Rightarrow> ('a \<Rightarrow> 'k) \<Rightarrow> 'a list \<Rightarrow> 'a list" where
  "py_sort lt key xs = foldr (insort_lt lt key) xs []"

definition py_sort_reverse :: "('k \<Rightarrow> 'k \<Rightarrow> bool) \<Rightarrow> ('a \<Rightarrow> 'k) \<Rightarrow> 'a list \<Rightarrow> 'a list" where
  "py_sort_reverse lt key xs = rev (py_sort lt key (rev xs))"

section \<open>Fundamentals (utils/fundamentals.py)\<close>

text \<open>
  The bundle built by \<open>get_fundamental_data\<close>, restricted to the keys the screener and the
  score read. A ratio the provider does not report is Python's \<open>None\<close>.
\<close>

record fundamental_data =
  fd_company_name :: string
  fd_sector :: string
  fd_market_cap :: real
  fd_pe_ratio :: "real option"
  fd_price_to_book :: "real option"
  fd_roe :: "real option"
  fd_profit_margin :: "real option"
  fd_debt_to_equity :: "real option"
  fd_current_ratio :: "real option"
  fd_revenue_growth :: "real option"
  fd_earnings_growth :: "real option"
  fd_dividend_yield :: "real option"

text \<open>\<open>if v and P(v)\<close> on an optional number: \<open>None\<close> and \<open>0\<close> are false.\<close>

definition truthy_and :: "real option \<Rightarrow> (real \<Rightarrow> bool) \<Rightarrow> bool" where
  "truthy_and v P = (case v of None \<Rightarrow> False | Some x \<Rightarrow> x \<noteq> 0 \<and> P x)"

record financial_score =
  fs_valuation :: int
  fs_profitability :: int
  fs_financial_health :: int
  fs_growth :: int
  fs_dividend :: int
  fs_total_score :: int
  fs_max_score :: int
  fs_percentage :: real
  fs_rating :: string

definition pe_points :: "real option \<Rightarrow> int" where
  "pe_points pe_ratio =
     (case pe_ratio of None \<Rightarrow> 0
      | Some pe \<Rightarrow>
          if pe = 0 then 0
          else if 10 \<le> pe \<and> pe \<le> 25 then 15
          else if (5 \<le> pe \<and> pe < 10) \<or> (25 < pe \<and> pe \<le> 35) then 10
          else if pe < 5 \<or> pe > 35 then 5
          else 0)"

definition pb_points :: "real option \<Rightarrow> int" where
  "pb_points pb_ratio =
     (case pb_ratio of None \<Rightarrow> 0
      | Some pb \<Rightarrow>
          if pb = 0 then 0
          else if 1 \<le> pb \<and> pb \<le> 3 then 10
          else if (1/2 \<le> pb \<and> pb < 1) \<or> (3 < pb \<and> pb \<le> 5) then 5
          else 0)"

definition roe_points :: "real option \<Rightarrow> int" where
  "roe_points roe =
     (case roe of None \<Rightarrow> 0
      | Some r \<Rightarrow>
          if r = 0 then 0
          else if r \<ge> 15/100 then 15
          else if r \<ge> 10/100 then 10
          else if r \<ge> 5/100 then 5
          else 0)"

definition margin_points :: "real option \<Rightarrow> int" where
  "margin_points profit_margin =
     (case profit_margin of None \<Rightarrow> 0
      | Some m \<Rightarrow>
          if m = 0 then 0
          else if m \<ge> 15/100 then 10
          else if m \<ge> 10/100 then 7
          else if m \<ge> 5/100 then 5
          else 0)"

text \<open>The debt ratio is tested with \<open>is not None\<close>, so a ratio of zero scores.\<close>

definition debt_points :: "real option \<Rightarrow> int" where
  "debt_points debt_to_equity =
     (case debt_to_equity of None \<Rightarrow> 0
      | Some d \<Rightarrow>
          if d \<le> 1/2 then 15
          else if d \<le> 1 then 10
          else if d \<le> 2 then 5
          else 0)"

definition current_ratio_points :: "real option \<Rightarrow> int" where
  "current_ratio_points current_ratio =
     (case current_ratio of None \<Rightarrow> 0
      | Some c \<Rightarrow>
          if c = 0 then 0
          else if c \<ge> 3/2 then 10
          else if c \<ge> 1 then 7
          else 0)"

definition growth_points :: "real option \<Rightarrow> int" where
  "growth_points g =
     (case g of None \<Rightarrow> 0
      | Some x \<Rightarrow>
          if x = 0 then 0
          else if x \<ge> 20/100 then 10
          else if x \<ge> 10/100 then 7
          else if x \<ge> 5/100 then 5
          else 0)"

definition dividend_points :: "real option \<Rightarrow> int" where
  "dividend_points dividend_yield =
     (case dividend_yield of None \<Rightarrow> 0
      | Some y \<Rightarrow>
          if y \<noteq> 0 \<and> y > 0 then
            (if 2/100 \<le> y \<and> y \<le> 6/100 then 5 else if y > 0 then 3 else 0)
          else 0)"

definition rating_of :: "real \<Rightarrow> string" where
  "rating_of percentage_score =
     (if percentage_score \<ge> 80 then ''Excellent''
      else if percentage_score \<ge> 70 then ''Good''
      else if percentage_score \<ge> 60 then ''Average''
      else if percentage_score \<ge> 50 then ''Below Average''
      else ''Poor'')"

definition calculate_financial_score :: "fundamental_data \<Rightarrow> financial_score" where
  "calculate_financial_score fundamental_data =
     (let valuation = pe_points (fd_pe_ratio fundamental_data)
                      + pb_points (fd_price_to_book fundamental_data);
          profitability = roe_points (fd_roe fundamental_data)
                          + margin_points (fd_profit_margin fundamental_data);
          financial_health = debt_points (fd_debt_to_equity fundamental_data)
                             + current_ratio_points (fd_current_ratio fundamental_data);
          growth = growth_points (fd_revenue_growth fundamental_data)
                   + growth_points (fd_earnings_growth fundamental_data);
          dividend = dividend_points (fd_dividend_yield fundamental_data);
          total_score = valuation + profitability + financial_health + growth + dividend;
          max_total = 25 + 25 + 25 + 20 + 5;
          percentage_score = (real_of_int total_score / real_of_int max_total) * 100
      in \<lparr> fs_valuation = valuation, fs_profitability = profitability,
           fs_financial_health = financial_health, fs_growth = growth,
           fs_dividend = dividend, fs_total_score = total_score, fs_max_score = max_total,
           fs_percentage = percentage_score, fs_rating = rating_of percentage_score \<rparr>)"

section \<open>The screener (utils/screener.py)\<close>

definition INDIAN_STOCKS :: "string list" where
  "INDIAN_STOCKS =
    [''RELIANCE'', ''TCS'', ''HDFCBANK'', ''INFY'', ''HINDUNILVR'', ''ICICIBANK'', ''KOTAKBANK'',
     ''SBIN'', ''BHARTIARTL'', ''ITC'', ''ASIANPAINT'', ''LT'', ''AXISBANK'', ''MARUTI'', ''SUNPHARMA'',
     ''TITAN'', ''ULTRACEMCO'', ''WIPRO'', ''NESTLEIND'', ''POWERGRID'', ''TATAMOTORS'', ''ONGC'',
     ''NTPC'', ''TECHM'', ''HCLTECH'', ''DIVISLAB'', ''CIPLA'', ''DRREDDY'', ''BAJFINANCE'',
     ''BAJAJFINSV'', ''COALINDIA'', ''IOC'', ''GRASIM'', ''JSWSTEEL'', ''HINDALCO'', ''INDUSINDBK'',
     ''ADANIPORTS'', ''BRITANNIA'', ''EICHERMOT'', ''HEROMOTOCO'', ''SHREECEM'', ''BAJAJ-AUTO'',
     ''TATASTEEL'', ''BPCL'', ''APOLLOHOSP'', ''HDFCLIFE'', ''SBILIFE'', ''ICICIPRULI'',
     ''PIDILITIND'', ''GODREJCP'', ''MARICO'', ''DABUR'']"

text \<open>
  The technical frame of a symbol, as the screens read it: the latest bar of each column
  (\<open>iloc[-1]\<close>). A column that \<open>calculate_technical_indicators\<close> did not add is \<open>None\<close>; a
  value inside a warm-up window is NaN. \<open>td_high_20_prev\<close> is
  \<open>High.rolling(20).max().iloc[-2]\<close>, which raises IndexError on a frame of one row
  (\<open>None\<close>).
\<close>

record technical_data =
  td_close :: pyfloat
  td_rsi :: "pyfloat option"
  td_sma20 :: "pyfloat option"
  td_sma50 :: "pyfloat option"
  td_macd :: "pyfloat option"
  td_macd_signal :: "pyfloat option"
  td_volume :: real
  td_avg_volume :: pyfloat
  td_high_20_prev :: "pyfloat option"

text \<open>
  The dict stored in the cache for a symbol. \<open>sd_technical\<close> is \<open>None\<close> for an empty
  frame.
\<close>

record stock_data =
  sd_symbol :: string
  sd_fundamental :: fundamental_data
  sd_technical :: "technical_data option"
  sd_current_price :: pyfloat

text \<open>
  The screener object. \<open>cached\<close> stands for \<open>_get_stock_data_cached\<close>: what the cache, or
  on a miss the two providers, return for a symbol during a scan; \<open>None\<close> when the fetch
  fails or returns no data. The network, the clock and the expiry are outside the model.
\<close>

record screener =
  stock_universe :: "string list"
  cached :: "string \<Rightarrow> stock_data option"

subsection \<open>Fundamental screen\<close>

text \<open>
  A criteria dict: each key is present with a value or absent. \<open>sectors\<close> is a list or
  \<open>None\<close>, and an absent key means \<open>None\<close> as well.
\<close>

record fundamental_criteria =
  min_market_cap :: "real option"
  max_market_cap :: "pyfloat option"
  min_pe_ratio :: "real option"
  max_pe_ratio :: "real option"
  min_roe :: "real option"
  max_debt_to_equity :: "real option"
  min_profit_margin :: "real option"
  min_revenue_growth :: "real option"
  require_dividend_yield :: "bool option"
  sectors :: "string list option"

definition no_fundamental_criteria :: fundamental_criteria where
  "no_fundamental_criteria =
     \<lparr> min_market_cap = None, max_market_cap = None, min_pe_ratio = None, max_pe_ratio = None,
       min_roe = None, max_debt_to_equity = None, min_profit_margin = None,
       min_revenue_growth = None, require_dividend_yield = None, sectors = None \<rparr>"

text \<open>\<open>{**default_criteria, **criteria}\<close>, key by key.\<close>

definition or_default :: "'a \<Rightarrow> 'a option \<Rightarrow> 'a" where
  "or_default d v = (case v of None \<Rightarrow> d | Some x \<Rightarrow> x)"

record fundamental_screen_criteria =
  sc_min_market_cap :: real
  sc_max_market_cap :: pyfloat
  sc_min_pe_ratio :: real
  sc_max_pe_ratio :: real
  sc_min_roe :: real
  sc_max_debt_to_equity :: real
  sc_min_profit_margin :: real
  sc_min_revenue_growth :: real
  sc_dividend_yield :: bool
  sc_sectors :: "string list option"

definition fundamental_defaults :: "fundamental_criteria \<Rightarrow> fundamental_screen_criteria" where
  "fundamental_defaults criteria =
     \<lparr> sc_min_market_cap = or_default 0 (min_market_cap criteria),
       sc_max_market_cap = or_default PInf (max_market_cap criteria),
       sc_min_pe_ratio = or_default 0 (min_pe_ratio criteria),
       sc_max_pe_ratio = or_default 50 (max_pe_ratio criteria),
       sc_min_roe = or_default 0 (min_roe criteria),
       sc_max_debt_to_equity = or_default 2 (max_debt_to_equity criteria),
       sc_min_profit_margin = or_default 0 (min_profit_margin criteria),
       sc_min_revenue_growth = or_default (- 1/2) (min_revenue_growth criteria),
       sc_dividend_yield = or_default False (require_dividend_yield criteria),
       sc_sectors = sectors criteria \<rparr>"

record fund_row =
  fr_symbol :: string
  fr_company_name :: string
  fr_sector :: string
  fr_current_price :: pyfloat
  fr_market_cap :: real
  fr_pe_ratio :: "real option"
  fr_roe :: "real option"
  fr_debt_to_equity :: "real option"
  fr_profit_margin :: "real option"
  fr_revenue_growth :: "real option"
  fr_dividend_yield :: "real option"
  fr_financial_score :: real
  fr_financial_rating :: string

text \<open>
  The filters of the loop body, in the order of the source: each one is the condition of
  an \<open>if ...: continue\<close>, so a symbol is kept when none of them holds.
\<close>

definition market_cap_rejects :: "fundamental_screen_criteria \<Rightarrow> fundamental_data \<Rightarrow> bool" where
  "market_cap_rejects sc f =
     (\<not> (sc_min_market_cap sc \<le> fd_market_cap f
          \<and> pf_le (Fin (fd_market_cap f)) (sc_max_market_cap sc)))"

definition pe_rejects :: "fundamental_screen_criteria \<Rightarrow> fundamental_data \<Rightarrow> bool" where
  "pe_rejects sc f =
     truthy_and (fd_pe_ratio f) (\<lambda>pe. \<not> (sc_min_pe_ratio sc \<le> pe \<and> pe \<le> sc_max_pe_ratio sc))"

definition roe_rejects :: "fundamental_screen_criteria \<Rightarrow> fundamental_data \<Rightarrow> bool" where
  "roe_rejects sc f = truthy_and (fd_roe f) (\<lambda>roe. roe < sc_min_roe sc)"

definition debt_rejects :: "fundamental_screen_criteria \<Rightarrow> fundamental_data \<Rightarrow> bool" where
  "debt_rejects sc f = truthy_and (fd_debt_to_equity f) (\<lambda>d. d > sc_max_debt_to_equity sc)"

definition margin_rejects :: "fundamental_screen_criteria \<Rightarrow> fundamental_data \<Rightarrow> bool" where
  "margin_rejects sc f = truthy_and (fd_profit_margin f) (\<lambda>m. m < sc_min_profit_margin sc)"

definition growth_rejects :: "fundamental_screen_criteria \<Rightarrow> fundamental_data \<Rightarrow> bool" where
  "growth_rejects sc f = truthy_and (fd_revenue_growth f) (\<lambda>g. g < sc_min_revenue_growth sc)"

definition dividend_rejects :: "fundamental_screen_criteria \<Rightarrow> fundamental_data \<Rightarrow> bool" where
  "dividend_rejects sc f =
     (sc_dividend_yield sc
      \<and> (case fd_dividend_yield f of None \<Rightarrow> True | Some y \<Rightarrow> y = 0 \<or> y \<le> 0))"

definition sector_rejects :: "fundamental_screen_criteria \<Rightarrow> fundamental_data \<Rightarrow> bool" where
  "sector_rejects sc f =
     (case sc_sectors sc of
        None \<Rightarrow> False
      | Some allowed \<Rightarrow> allowed \<noteq> [] \<and> \<not> List.member allowed (fd_sector f))"

definition fundamental_rejects :: "fundamental_screen_criteria \<Rightarrow> fundamental_data \<Rightarrow> bool" where
  "fundamental_rejects sc f =
     (if market_cap_rejects sc f then True
      else if pe_rejects sc f then True
      else if roe_rejects sc f then True
      else if debt_rejects sc f then True
      else if margin_rejects sc f then True
      else if growth_rejects sc f then True
      else if dividend_rejects sc f then True
      else sector_rejects sc f)"

definition fundamental_body ::
  "screener \<Rightarrow> fundamental_screen_criteria \<Rightarrow> string \<Rightarrow> py_error + fund_row option" where
  "fundamental_body self sc symbol =
     (case cached self symbol of
        None \<Rightarrow> Inr None
      | Some stock_data \<Rightarrow>
          let fundamental = sd_fundamental stock_data in
          if fundamental_rejects sc fundamental then Inr None
          else
            let financial_score = calculate_financial_score fundamental in
            Inr (Some \<lparr> fr_symbol = symbol,
                        fr_company_name = fd_company_name fundamental,
                        fr_sector = fd_sector fundamental,
                        fr_current_price = sd_current_price stock_data,
                        fr_market_cap = fd_market_cap fundamental,
                        fr_pe_ratio = fd_pe_ratio fundamental,
                        fr_roe = fd_roe fundamental,
                        fr_debt_to_equity = fd_debt_to_equity fundamental,
                        fr_profit_margin = fd_profit_margin fundamental,
                        fr_revenue_growth = fd_revenue_growth fundamental,
                        fr_dividend_yield = fd_dividend_yield fundamental,
                        fr_financial_score = fs_percentage financial_score,
                        fr_financial_rating = fs_rating financial_score \<rparr>))"

text \<open>
  The whole function: the \<open>try\<close> block's loop and sort, and \<open>except Exception: return []\<close>.
\<close>

definition fundamental_screen :: "screener \<Rightarrow> fundamental_criteria \<Rightarrow> fund_row list" where
  "fundamental_screen self criteria =
     (case for_each (fundamental_body self (fundamental_defaults criteria)) (stock_universe self) of
        Inl e \<Rightarrow> []
      | Inr screened_stocks \<Rightarrow> py_sort_reverse (<) fr_financial_score screened_stocks)"

subsection \<open>Technical screen\<close>

record technical_criteria =
  rsi_min :: "real option"
  rsi_max :: "real option"
  price_above_sma20 :: "bool option"
  price_above_sma50 :: "bool option"
  macd_bullish :: "bool option"
  volume_spike :: "bool option"
  breakout_pattern :: "bool option"
  min_volume :: "real option"

definition no_technical_criteria :: technical_criteria where
  "no_technical_criteria =
     \<lparr> rsi_min = None, rsi_max = None, price_above_sma20 = None, price_above_sma50 = None,
       macd_bullish = None, volume_spike = None, breakout_pattern = None, min_volume = None \<rparr>"

record technical_screen_criteria =
  tc_rsi_min :: real
  tc_rsi_max :: real
  tc_price_above_sma20 :: bool
  tc_price_above_sma50 :: bool
  tc_macd_bullish :: bool
  tc_volume_spike :: bool
  tc_breakout_pattern :: bool
  tc_min_volume :: real

definition technical_defaults :: "technical_criteria \<Rightarrow> technical_screen_criteria" where
  "technical_defaults criteria =
     \<lparr> tc_rsi_min = or_default 30 (rsi_min criteria),
       tc_rsi_max = or_default 70 (rsi_max criteria),
       tc_price_above_sma20 = or_default False (price_above_sma20 criteria),
       tc_price_above_sma50 = or_default False (price_above_sma50 criteria),
       tc_macd_bullish = or_default False (macd_bullish criteria),
       tc_volume_spike = or_default False (volume_spike criteria),
       tc_breakout_pattern = or_default False (breakout_pattern criteria),
       tc_min_volume = or_default 0 (min_volume criteria) \<rparr>"

record tech_row =
  tr_symbol :: string
  tr_current_price :: pyfloat
  tr_rsi :: "pyfloat option"
  tr_price_vs_sma20 :: "pyfloat option"
  tr_price_vs_sma50 :: "pyfloat option"
  tr_macd_signal :: string
  tr_volume_ratio :: pyfloat
  tr_breakout_score :: nat
  tr_technical_score :: real

text \<open>\<open>if v and P(v)\<close> on an optional cell: \<open>None\<close> and \<open>0.0\<close> are false, NaN is true.\<close>

definition cell_truthy :: "pyfloat option \<Rightarrow> bool" where
  "cell_truthy v = (case v of None \<Rightarrow> False | Some x \<Rightarrow> pf_truthy x)"

definition cell_and :: "pyfloat option \<Rightarrow> (pyfloat \<Rightarrow> bool) \<Rightarrow> bool" where
  "cell_and v P = (case v of None \<Rightarrow> False | Some x \<Rightarrow> pf_truthy x \<and> P x)"

definition rsi_rejects :: "technical_screen_criteria \<Rightarrow> technical_data \<Rightarrow> bool" where
  "rsi_rejects sc t =
     cell_and (td_rsi t) (\<lambda>rsi. \<not> (pf_le (Fin (tc_rsi_min sc)) rsi \<and> pf_le rsi (Fin (tc_rsi_max sc))))"

definition sma20_rejects :: "technical_screen_criteria \<Rightarrow> technical_data \<Rightarrow> bool" where
  "sma20_rejects sc t =
     (tc_price_above_sma20 sc \<and> cell_and (td_sma20 t) (\<lambda>sma20. pf_le (td_close t) sma20))"

definition sma50_rejects :: "technical_screen_criteria \<Rightarrow> technical_data \<Rightarrow> bool" where
  "sma50_rejects sc t =
     (tc_price_above_sma50 sc \<and> cell_and (td_sma50 t) (\<lambda>sma50. pf_le (td_close t) sma50))"

definition macd_rejects :: "technical_screen_criteria \<Rightarrow> technical_data \<Rightarrow> bool" where
  "macd_rejects sc t =
     (tc_macd_bullish sc
      \<and> cell_and (td_macd t) (\<lambda>macd. cell_and (td_macd_signal t) (\<lambda>macd_signal. pf_le macd macd_signal)))"

definition volume_spike_rejects :: "technical_screen_criteria \<Rightarrow> technical_data \<Rightarrow> bool" where
  "volume_spike_rejects sc t =
     (tc_volume_spike sc \<and> pf_truthy (td_avg_volume t)
      \<and> pf_less (pf_div (Fin (td_volume t)) (td_avg_volume t)) (Fin (3/2)))"

definition min_volume_rejects :: "technical_screen_criteria \<Rightarrow> technical_data \<Rightarrow> bool" where
  "min_volume_rejects sc t = (td_volume t < tc_min_volume sc)"

definition technical_rejects :: "technical_screen_criteria \<Rightarrow> technical_data \<Rightarrow> bool" where
  "technical_rejects sc t =
     (if rsi_rejects sc t then True
      else if sma20_rejects sc t then True
      else if sma50_rejects sc t then True
      else if macd_rejects sc t then True
      else if volume_spike_rejects sc t then True
      else min_volume_rejects sc t)"

definition macd_above_signal :: "technical_data \<Rightarrow> bool" where
  "macd_above_signal t =
     cell_and (td_macd t) (\<lambda>macd. cell_and (td_macd_signal t) (\<lambda>macd_signal. pf_less macd_signal macd))"

text \<open>The score: points earned over points available, as a percentage.\<close>

definition technical_score_pct :: "technical_data \<Rightarrow> real" where
  "technical_score_pct t =
     (let current_price = td_close t;
          rsi_points = (if cell_and (td_rsi t) (\<lambda>rsi. pf_le (Fin 40) rsi \<and> pf_le rsi (Fin 60)) then 20
                        else if cell_and (td_rsi t) (\<lambda>rsi. pf_le (Fin 30) rsi \<and> pf_le rsi (Fin 70))
                        then 15 else 0);
          rsi_available = (if cell_truthy (td_rsi t) then 20 else 0);
          sma20_points = (if cell_and (td_sma20 t) (\<lambda>sma20. pf_less sma20 current_price) then 15 else 0);
          sma50_points = (if cell_and (td_sma50 t) (\<lambda>sma50. pf_less sma50 current_price) then 15 else 0);
          macd_points = (if macd_above_signal t then 20 else 0);
          volume_points = (if pf_truthy (td_avg_volume t)
                              \<and> pf_less (Fin (12/10)) (pf_div (Fin (td_volume t)) (td_avg_volume t))
                           then 10 else 0);
          technical_score = rsi_points + sma20_points + sma50_points + macd_points + volume_points;
          total_indicators = rsi_available + 15 + 15 + 20 + (10 :: int)
      in if total_indicators > 0
         then real_of_int technical_score / real_of_int total_indicators * 100 else 0)"

definition price_vs :: "pyfloat \<Rightarrow> pyfloat option \<Rightarrow> pyfloat option" where
  "price_vs current_price sma =
     (if cell_truthy sma
      then (case sma of None \<Rightarrow> None
            | Some m \<Rightarrow> Some (pf_mul (pf_div (pf_sub current_price m) m) (Fin 100)))
      else None)"

definition tech_row_of :: "string \<Rightarrow> technical_data \<Rightarrow> nat \<Rightarrow> tech_row" where
  "tech_row_of symbol t breakout_score =
     \<lparr> tr_symbol = symbol,
       tr_current_price = td_close t,
       tr_rsi = td_rsi t,
       tr_price_vs_sma20 = price_vs (td_close t) (td_sma20 t),
       tr_price_vs_sma50 = price_vs (td_close t) (td_sma50 t),
       tr_macd_signal = (if macd_above_signal t then ''Bullish'' else ''Bearish''),
       tr_volume_ratio = (if pf_truthy (td_avg_volume t)
                          then pf_div (Fin (td_volume t)) (td_avg_volume t) else Fin 1),
       tr_breakout_score = breakout_score,
       tr_technical_score = technical_score_pct t \<rparr>"

definition technical_body ::
  "screener \<Rightarrow> technical_screen_criteria \<Rightarrow> string \<Rightarrow> py_error + tech_row option" where
  "technical_body self sc symbol =
     (case cached self symbol of
        None \<Rightarrow> Inr None
      | Some stock_data \<Rightarrow>
          (case sd_technical stock_data of
             None \<Rightarrow> Inr None
           | Some technical \<Rightarrow>
               if technical_rejects sc technical then Inr None
               else if tc_breakout_pattern sc then
                 (case td_high_20_prev technical of
                    None \<Rightarrow> Inl IndexError
                  | Some high_20 \<Rightarrow>
                      if pf_less high_20 (td_close technical)
                      then Inr (Some (tech_row_of symbol technical 1))
                      else Inr None)
               else Inr (Some (tech_row_of symbol technical 0))))"

definition technical_screen :: "screener \<Rightarrow> technical_criteria \<Rightarrow> tech_row list" where
  "technical_screen self criteria =
     (case for_each (technical_body self (technical_defaults criteria)) (stock_universe self) of
        Inl e \<Rightarrow> []
      | Inr screened_stocks \<Rightarrow> py_sort_reverse (<) tr_technical_score screened_stocks)"

subsection \<open>Combined screen\<close>

text \<open>
  \<open>weights\<close> is a dict or \<open>None\<close>. The merged dict \<open>{**fund_result, **tech_result}\<close> keeps
  every key of both rows; it is modelled by the pair of the rows, where \<open>c_tech = None\<close>
  stands for the empty dict that \<open>technical_lookup.get(symbol, {})\<close> returns for a symbol
  without a technical row.
\<close>

record combined_row =
  c_fund :: fund_row
  c_tech :: "tech_row option"
  c_combined_score :: real

definition default_weights :: "string \<rightharpoonup> real" where
  "default_weights = [''fundamental'' \<mapsto> 6/10, ''technical'' \<mapsto> 4/10]"

text \<open>\<open>if weights is None: weights = {'fundamental': 0.6, 'technical': 0.4}\<close>.\<close>

definition chosen_weights :: "(string \<rightharpoonup> real) option \<Rightarrow> (string \<rightharpoonup> real)" where
  "chosen_weights weights = (case weights of None \<Rightarrow> default_weights | Some w \<Rightarrow> w)"

text \<open>A weights argument on which the score expression raises no KeyError.\<close>

definition well_formed_weights :: "(string \<rightharpoonup> real) option \<Rightarrow> bool" where
  "well_formed_weights weights =
     (case weights of None \<Rightarrow> True
      | Some w \<Rightarrow> w ''fundamental'' \<noteq> None \<and> w ''technical'' \<noteq> None)"

definition technical_lookup_of :: "tech_row list \<Rightarrow> (string \<rightharpoonup> tech_row)" where
  "technical_lookup_of technical_results =
     fold (\<lambda>result m. m(tr_symbol result \<mapsto> result)) technical_results Map.empty"

text \<open>\<open>tech_result.get('technical_score', 0)\<close>.\<close>

definition tech_score_or_0 :: "tech_row option \<Rightarrow> real" where
  "tech_score_or_0 tech_result = (case tech_result of None \<Rightarrow> 0 | Some t \<Rightarrow> tr_technical_score t)"

definition combined_body ::
  "(string \<rightharpoonup> real) \<Rightarrow> (string \<rightharpoonup> tech_row) \<Rightarrow> fund_row \<Rightarrow> py_error + combined_row option" where
  "combined_body weights technical_lookup fund_result =
     (let symbol = fr_symbol fund_result;
          tech_result = technical_lookup symbol;
          fund_score = fr_financial_score fund_result;
          tech_score = tech_score_or_0 tech_result
      in case weights ''fundamental'' of
           None \<Rightarrow> Inl KeyError
         | Some w_f \<Rightarrow>
             (case weights ''technical'' of
                None \<Rightarrow> Inl KeyError
              | Some w_t \<Rightarrow>
                  Inr (Some \<lparr> c_fund = fund_result, c_tech = tech_result,
                              c_combined_score = fund_score * w_f + tech_score * w_t \<rparr>)))"

definition combined_screen ::
  "screener \<Rightarrow> fundamental_criteria \<Rightarrow> technical_criteria \<Rightarrow> (string \<rightharpoonup> real) option
     \<Rightarrow> combined_row list" where
  "combined_screen self fundamental_criteria technical_criteria weights =
     (let weights' = chosen_weights weights;
          fundamental_results = fundamental_screen self fundamental_criteria;
          technical_results = technical_screen self technical_criteria;
          technical_lookup = technical_lookup_of technical_results
      in case for_each (combined_body weights' technical_lookup) fundamental_results of
           Inl e \<Rightarrow> []
         | Inr combined_results \<Rightarrow> py_sort_reverse (<) c_combined_score combined_results)"

subsection \<open>RSI screen\<close>

record rsi_criteria =
  rsi_low :: "real option"
  rsi_high :: "real option"
  rsi_condition :: "string option"

record rsi_row =
  rr_symbol :: string
  rr_current_price :: pyfloat
  rr_rsi :: pyfloat
  rr_signal :: string
  rr_score :: pyfloat

fun pf_abs :: "pyfloat \<Rightarrow> pyfloat" where
  "pf_abs (Fin x) = Fin \<bar>x\<bar>"
| "pf_abs PInf = PInf"
| "pf_abs NInf = PInf"
| "pf_abs NaN = NaN"

text \<open>
  \<open>round(x, 2)\<close> on a numpy float: scale by 100, round to the nearest integer with ties to
  the even one, scale back.
\<close>

definition rint :: "real \<Rightarrow> int" where
  "rint x =
     (let f = \<lfloor>x\<rfloor>; d = x - of_int f
      in if d < 1/2 then f else if d > 1/2 then f + 1 else if even f then f else f + 1)"

fun round2 :: "pyfloat \<Rightarrow> pyfloat" where
  "round2 (Fin x) = Fin (of_int (rint (x * 100)) / 100)"
| "round2 a = a"

definition rsi_matches :: "string \<Rightarrow> real \<Rightarrow> real \<Rightarrow> pyfloat \<Rightarrow> bool" where
  "rsi_matches condition low high current_rsi =
     (if condition = ''oversold'' \<and> pf_le current_rsi (Fin low) then True
      else if condition = ''overbought'' \<and> pf_le (Fin high) current_rsi then True
      else if condition = ''range'' \<and> pf_le (Fin low) current_rsi
              \<and> pf_le current_rsi (Fin high) then True
      else False)"

definition rsi_body ::
  "screener \<Rightarrow> string \<Rightarrow> real \<Rightarrow> real \<Rightarrow> string \<Rightarrow> py_error + rsi_row option" where
  "rsi_body self condition low high symbol =
     (case cached self symbol of
        None \<Rightarrow> Inr None
      | Some stock_data \<Rightarrow>
          (case sd_technical stock_data of
             None \<Rightarrow> Inr None
           | Some technical_data \<Rightarrow>
               (case td_rsi technical_data of
                  None \<Rightarrow> Inr None
                | Some current_rsi \<Rightarrow>
                    if rsi_matches condition low high current_rsi
                    then Inr (Some \<lparr> rr_symbol = symbol,
                                     rr_current_price = td_close technical_data,
                                     rr_rsi = round2 current_rsi,
                                     rr_signal = condition,
                                     rr_score = pf_sub (Fin 100) (pf_abs (pf_sub current_rsi (Fin 50))) \<rparr>)
                    else Inr None)))"

definition rsi_screen :: "screener \<Rightarrow> rsi_criteria \<Rightarrow> rsi_row list" where
  "rsi_screen self criteria =
     (let low = or_default 30 (rsi_low criteria);
          high = or_default 70 (rsi_high criteria);
          condition = or_default ''oversold'' (rsi_condition criteria)
      in case for_each (rsi_body self condition low high) (stock_universe self) of
           Inl e \<Rightarrow> []
         | Inr screened_stocks \<Rightarrow>
             take 20
               (if condition = ''oversold'' then py_sort pf_less rr_rsi screened_stocks
                else if condition = ''overbought''
                then py_sort_reverse pf_less rr_rsi screened_stocks
                else py_sort_reverse pf_less rr_score screened_stocks))"

text \<open>The symbols of the universe that the loop of \<open>rsi_screen\<close> appends, in universe order.\<close>

definition rsi_qualifying :: "screener \<Rightarrow> rsi_criteria \<Rightarrow> string list" where
  "rsi_qualifying self criteria =
     filter (\<lambda>symbol.
        case cached self symbol of
          None \<Rightarrow> False
        | Some stock_data \<Rightarrow>
            (case sd_technical stock_data of
               None \<Rightarrow> False
             | Some technical_data \<Rightarrow>
                 (case td_rsi technical_data of
                    None \<Rightarrow> False
                  | Some current_rsi \<Rightarrow>
                      rsi_matches (or_default ''oversold'' (rsi_condition criteria))
                        (or_default 30 (rsi_low criteria)) (or_default 70 (rsi_high criteria))
                        current_rsi)))
      (stock_universe self)"

text \<open>The row that is reported for a matching symbol, field by field.\<close>

definition rsi_row_of :: "string \<Rightarrow> string \<Rightarrow> technical_data \<Rightarrow> pyfloat \<Rightarrow> rsi_row" where
  "rsi_row_of condition symbol technical_data current_rsi =
     \<lparr> rr_symbol = symbol,
       rr_current_price = td_close technical_data,
       rr_rsi = round2 current_rsi,
       rr_signal = condition,
       rr_score = pf_sub (Fin 100) (pf_abs (pf_sub current_rsi (Fin 50))) \<rparr>"

text \<open>
  What "the top 20 matches" refers to. The matches: one row for every symbol of the
  universe whose latest RSI satisfies the condition, in universe order. The ranking:
  \<open>rsi_order condition a b\<close> says that row \<open>a\<close> may stand before row \<open>b\<close>, which is by
  rising RSI for \<open>oversold\<close>, by falling RSI for \<open>overbought\<close> and by falling score for
  any other condition.
\<close>

definition rsi_matching_rows :: "screener \<Rightarrow> rsi_criteria \<Rightarrow> rsi_row list" where
  "rsi_matching_rows self criteria =
     concat (map (\<lambda>symbol.
        case cached self symbol of
          None \<Rightarrow> []
        | Some stock_data \<Rightarrow>
            (case sd_technical stock_data of
               None \<Rightarrow> []
             | Some technical_data \<Rightarrow>
                 (case td_rsi technical_data of
                    None \<Rightarrow> []
                  | Some current_rsi \<Rightarrow>
                      if rsi_matches (or_default ''oversold'' (rsi_condition criteria))
                           (or_default 30 (rsi_low criteria)) (or_default 70 (rsi_high criteria))
                           current_rsi
                      then [rsi_row_of (or_default ''oversold'' (rsi_condition criteria)) symbol
                              technical_data current_rsi]
                      else [])))
      (stock_universe self))"

definition rsi_order :: "string \<Rightarrow> rsi_row \<Rightarrow> rsi_row \<Rightarrow> bool" where
  "rsi_order condition a b =
     (if condition = ''oversold'' then pf_le (rr_rsi a) (rr_rsi b)
      else if condition = ''overbought'' then pf_le (rr_rsi b) (rr_rsi a)
      else pf_le (rr_score b) (rr_score a))"

text \<open>The key of the sort that \<open>rsi_screen\<close> runs for a condition.\<close>

definition rsi_sort_key :: "string \<Rightarrow> rsi_row \<Rightarrow> pyfloat" where
  "rsi_sort_key condition r =
     (if condition = ''oversold'' \<or> condition = ''overbought'' then rr_rsi r else rr_score r)"

section \<open>Rolling windows and the indicators (app.py, utils/market_data.py)\<close>

text \<open>
  \<open>Series.rolling(window=w).agg()\<close> with the default \<open>min_periods = w\<close>: the value at
  bar \<open>i\<close> aggregates the \<open>w\<close> cells that end at \<open>i\<close>, and is NaN while fewer than \<open>w\<close>
  cells are there or when one of them is NaN.
\<close>

definition window_ending :: "nat \<Rightarrow> nat \<Rightarrow> 'a list \<Rightarrow> 'a list" where
  "window_ending w i xs = take w (drop (Suc i - w) xs)"

definition rolling :: "nat \<Rightarrow> (pyfloat list \<Rightarrow> pyfloat) \<Rightarrow> pyfloat list \<Rightarrow> pyfloat list" where
  "rolling w agg xs =
     map (\<lambda>i. if w = 0 \<or> Suc i < w \<or> NaN \<in> set (window_ending w i xs) then NaN
               else agg (window_ending w i xs))
         [0..<length xs]"

definition pf_sum :: "pyfloat list \<Rightarrow> pyfloat" where
  "pf_sum vs = foldr pf_add vs (Fin 0)"

definition pf_mean :: "pyfloat list \<Rightarrow> pyfloat" where
  "pf_mean vs = pf_div (pf_sum vs) (Fin (real (length vs)))"

fun pf_max_list :: "pyfloat list \<Rightarrow> pyfloat" where
  "pf_max_list [] = NaN"
| "pf_max_list [x] = x"
| "pf_max_list (x # y # r) = (let m = pf_max_list (y # r) in if pf_less m x then x else m)"

fun pf_min_list :: "pyfloat list \<Rightarrow> pyfloat" where
  "pf_min_list [] = NaN"
| "pf_min_list [x] = x"
| "pf_min_list (x # y # r) = (let m = pf_min_list (y # r) in if pf_less x m then x else m)"

subsection \<open>RSI\<close>

text \<open>
  \<open>rsi(close, window)\<close> of app.py; \<open>calculate_technical_indicators\<close> computes its RSI
  column by the same lines with the window 14. \<open>close\<close> is a series of finite prices.
  \<open>Series.diff()\<close> starts with NaN; \<open>delta.where(cond, 0)\<close> keeps a cell where the
  condition holds and puts 0 elsewhere, also where the cell is NaN.
\<close>

definition diff :: "real list \<Rightarrow> pyfloat list" where
  "diff xs = (case xs of [] \<Rightarrow> [] | x # r \<Rightarrow> NaN # map2 (\<lambda>a b. Fin (b - a)) xs r)"

definition gain :: "real list \<Rightarrow> pyfloat list" where
  "gain close = map (\<lambda>delta. if pf_less (Fin 0) delta then delta else Fin 0) (diff close)"

definition loss :: "real list \<Rightarrow> pyfloat list" where
  "loss close = map (\<lambda>delta. pf_neg (if pf_less delta (Fin 0) then delta else Fin 0)) (diff close)"

definition avg_gain :: "real list \<Rightarrow> nat \<Rightarrow> pyfloat list" where
  "avg_gain close window = rolling window pf_mean (gain close)"

definition avg_loss :: "real list \<Rightarrow> nat \<Rightarrow> pyfloat list" where
  "avg_loss close window = rolling window pf_mean (loss close)"

definition rsi_of :: "pyfloat \<Rightarrow> pyfloat \<Rightarrow> pyfloat" where
  "rsi_of g l = (let rs = pf_div g l in pf_sub (Fin 100) (pf_div (Fin 100) (pf_add (Fin 1) rs)))"

definition rsi :: "real list \<Rightarrow> nat \<Rightarrow> pyfloat list" where
  "rsi close window = map2 rsi_of (avg_gain close window) (avg_loss close window)"

definition technical_indicators_rsi :: "real list \<Rightarrow> pyfloat list" where
  "technical_indicators_rsi close = rsi close 14"

subsection \<open>Supertrend\<close>

record bar =
  Open :: real
  High :: real
  Low :: real
  Close :: real
  Volume :: int

definition hl2 :: "bar list \<Rightarrow> real list" where
  "hl2 df = map (\<lambda>b. (High b + Low b) / 2) df"

definition supertrend_atr :: "bar list \<Rightarrow> nat \<Rightarrow> pyfloat list" where
  "supertrend_atr df period =
     rolling period pf_mean
       (map2 pf_sub (rolling period pf_max_list (map (\<lambda>b. Fin (High b)) df))
                    (rolling period pf_min_list (map (\<lambda>b. Fin (Low b)) df)))"

definition upper_band :: "bar list \<Rightarrow> nat \<Rightarrow> real \<Rightarrow> pyfloat list" where
  "upper_band df period multiplier =
     map2 (\<lambda>h atr. pf_add (Fin h) (pf_mul (Fin multiplier) atr)) (hl2 df) (supertrend_atr df period)"

definition lower_band :: "bar list \<Rightarrow> nat \<Rightarrow> real \<Rightarrow> pyfloat list" where
  "lower_band df period multiplier =
     map2 (\<lambda>h atr. pf_sub (Fin h) (pf_mul (Fin multiplier) atr)) (hl2 df) (supertrend_atr df period)"

text \<open>
  One iteration of the loop, on the state \<open>(in_uptrend, supertrend_values,
  trend_direction)\<close>.
\<close>

definition supertrend_step ::
  "bar list \<Rightarrow> nat \<Rightarrow> real \<Rightarrow> nat \<Rightarrow> bool \<times> pyfloat list \<times> int list
     \<Rightarrow> bool \<times> pyfloat list \<times> int list" where
  "supertrend_step df period multiplier i state =
     (case state of (in_uptrend, supertrend_values, trend_direction) \<Rightarrow>
        if i = 0 then (in_uptrend, supertrend_values @ [Fin (hl2 df ! i)], trend_direction @ [1])
        else
          let in_uptrend' =
                (if pf_less (upper_band df period multiplier ! (i - 1)) (Fin (Close (df ! i))) then True
                 else if pf_less (Fin (Close (df ! i))) (lower_band df period multiplier ! (i - 1))
                 then False
                 else in_uptrend)
          in if in_uptrend'
             then (in_uptrend', supertrend_values @ [lower_band df period multiplier ! i],
                   trend_direction @ [1])
             else (in_uptrend', supertrend_values @ [upper_band df period multiplier ! i],
                   trend_direction @ [- 1]))"

definition supertrend :: "bar list \<Rightarrow> nat \<Rightarrow> real \<Rightarrow> pyfloat list \<times> int list" where
  "supertrend df period multiplier =
     (case fold (supertrend_step df period multiplier) [0..<length df] (True, [], []) of
        (in_uptrend, supertrend_values, trend_direction) \<Rightarrow> (supertrend_values, trend_direction))"

text \<open>
  The loop in closed form, for the proofs: the value of \<open>in_uptrend\<close> after bar \<open>i\<close>, and
  the line value and the direction that the loop appends at bar \<open>i\<close>.
\<close>

fun trend_after :: "bar list \<Rightarrow> nat \<Rightarrow> real \<Rightarrow> nat \<Rightarrow> bool" where
  "trend_after df period multiplier 0 = True"
| "trend_after df period multiplier (Suc i) =
     (if pf_less (upper_band df period multiplier ! i) (Fin (Close (df ! Suc i))) then True
      else if pf_less (Fin (Close (df ! Suc i))) (lower_band df period multiplier ! i) then False
      else trend_after df period multiplier i)"

definition line_at :: "bar list \<Rightarrow> nat \<Rightarrow> real \<Rightarrow> nat \<Rightarrow> pyfloat" where
  "line_at df period multiplier i =
     (if i = 0 then Fin (hl2 df ! 0)
      else if trend_after df period multiplier i then lower_band df period multiplier ! i
      else upper_band df period multiplier ! i)"

definition direction_at :: "bar list \<Rightarrow> nat \<Rightarrow> real \<Rightarrow> nat \<Rightarrow> int" where
  "direction_at df period multiplier i = (if trend_after df period multiplier i then 1 else - 1)"

text \<open>A band width that is a number is not negative.\<close>

definition nonneg_or_nan :: "pyfloat \<Rightarrow> bool" where
  "nonneg_or_nan a = (case a of Fin x \<Rightarrow> 0 \<le> x | NaN \<Rightarrow> True | PInf \<Rightarrow> False | NInf \<Rightarrow> False)"

section \<open>Example data\<close>

text \<open>
  A symbol with strong fundamentals (every component of the financial score is maximal)
  and bullish technicals (every component of the technical score is maximal).
\<close>

definition strong_fundamentals :: fundamental_data where
  "strong_fundamentals =
     \<lparr> fd_company_name = ''Example Ltd'', fd_sector = ''Technology'',
       fd_market_cap = 1000000000000,
       fd_pe_ratio = Some 15, fd_price_to_book = Some 2, fd_roe = Some (1/4),
       fd_profit_margin = Some (1/4), fd_debt_to_equity = Some (1/4),
       fd_current_ratio = Some 2, fd_revenue_growth = Some (1/4),
       fd_earnings_growth = Some (1/4), fd_dividend_yield = Some (3/100) \<rparr>"

definition bullish_technicals :: technical_data where
  "bullish_technicals =
     \<lparr> td_close = Fin 110, td_rsi = Some (Fin 50), td_sma20 = Some (Fin 100),
       td_sma50 = Some (Fin 90), td_macd = Some (Fin 2), td_macd_signal = Some (Fin 1),
       td_volume = 1500000, td_avg_volume = Fin 1000000, td_high_20_prev = Some (Fin 120) \<rparr>"

definition example_stock :: "fundamental_data \<Rightarrow> technical_data \<Rightarrow> string \<Rightarrow> stock_data" where
  "example_stock f t symbol =
     \<lparr> sd_symbol = symbol, sd_fundamental = f, sd_technical = Some t,
       sd_current_price = td_close t \<rparr>"

text \<open>A screener over the real universe whose providers have data for the listed symbols only.\<close>

definition screener_with :: "string list \<Rightarrow> (string \<Rightarrow> stock_data) \<Rightarrow> screener" where
  "screener_with symbols data =
     \<lparr> stock_universe = INDIAN_STOCKS,
       cached = (\<lambda>s. if List.member symbols s then Some (data s) else None) \<rparr>"

definition tcs_overbought :: screener where
  "tcs_overbought = screener_with [''TCS'']
     (example_stock strong_fundamentals (bullish_technicals\<lparr> td_rsi := Some (Fin 80) \<rparr>))"

definition tcs_bullish :: screener where
  "tcs_bullish = screener_with [''TCS''] (example_stock strong_fundamentals bullish_technicals)"

definition fundamentals_without_pe :: fundamental_data where
  "fundamentals_without_pe = strong_fundamentals\<lparr> fd_pe_ratio := None \<rparr>"

definition technicals_without_rsi :: technical_data where
  "technicals_without_rsi = bullish_technicals\<lparr> td_rsi := None \<rparr>"

definition infy_missing_fields :: screener where
  "infy_missing_fields = screener_with [''INFY'']
     (example_stock fundamentals_without_pe technicals_without_rsi)"

definition two_equal_scores :: screener where
  "two_equal_scores = screener_with [''RELIANCE'', ''HDFCBANK'']
     (example_stock strong_fundamentals bullish_technicals)"

definition contradictory_pe :: fundamental_criteria where
  "contradictory_pe = no_fundamental_criteria\<lparr> min_pe_ratio := Some 30, max_pe_ratio := Some 10 \<rparr>"

definition pe_between_5_and_20 :: fundamental_criteria where
  "pe_between_5_and_20 = no_fundamental_criteria\<lparr> min_pe_ratio := Some 5, max_pe_ratio := Some 20 \<rparr>"

definition rsi_between_30_and_70 :: technical_criteria where
  "rsi_between_30_and_70 = no_technical_criteria\<lparr> rsi_min := Some 30, rsi_max := Some 70 \<rparr>"

definition equal_weights :: "string \<rightharpoonup> real" where
  "equal_weights = [''fundamental'' \<mapsto> 1, ''technical'' \<mapsto> 1]"

definition zero_weights :: "string \<rightharpoonup> real" where
  "zero_weights = [''fundamental'' \<mapsto> 0, ''technical'' \<mapsto> 0]"

text \<open>Three closes that only rise: the losses are zero.\<close>

definition rising_3 :: "real list" where
  "rising_3 = [100, 101, 103]"

text \<open>Three bars: the second closes below the first bar's lower band (period 1, multiplier 1).\<close>

definition three_bars :: "bar list" where
  "three_bars =
     [\<lparr> Open = 10, High = 11, Low = 9, Close = 10, Volume = 1000 \<rparr>,
      \<lparr> Open = 9, High = 9, Low = 5, Close = 6, Volume = 3000 \<rparr>,
      \<lparr> Open = 10, High = 13, Low = 10, Close = 12, Volume = 2000 \<rparr>]"



text \<open>RELIANCE, first in the universe, has RSI 25; TCS, second, has RSI 20.\<close>

definition two_oversold :: screener where
  "two_oversold = screener_with [''RELIANCE'', ''TCS'']
     (\<lambda>s. example_stock strong_fundamentals
             (bullish_technicals\<lparr> td_rsi := Some (Fin (if s = ''TCS'' then 20 else 25)) \<rparr>) s)"

definition all_oversold :: screener where
  "all_oversold =
     \<lparr> stock_universe = INDIAN_STOCKS,
       cached = (\<lambda>s. Some (example_stock strong_fundamentals
                              (bullish_technicals\<lparr> td_rsi := Some (Fin 25) \<rparr>) s)) \<rparr>"

definition no_rsi_criteria :: rsi_criteria where
  "no_rsi_criteria = \<lparr> rsi_low = None, rsi_high = None, rsi_condition = None \<rparr>"

section \<open>Facts about loops and sorting\<close>

lemma length_insort_lt: "length (insort_lt lt key x xs) = Suc (length xs)"
  by (induction xs) simp_all

lemma length_py_sort: "length (py_sort lt key xs) = length xs"
  by (induction xs) (simp_all add: py_sort_def length_insort_lt)

lemma length_py_sort_reverse: "length (py_sort_reverse lt key xs) = length xs"
  by (simp add: py_sort_reverse_def length_py_sort)

lemma set_insort_lt: "set (insort_lt lt key x xs) = insert x (set xs)"
  by (induction xs) auto

lemma set_py_sort: "set (py_sort lt key xs) = set xs"
  by (induction xs) (simp_all add: py_sort_def set_insort_lt)

lemma set_py_sort_reverse: "set (py_sort_reverse lt key xs) = set xs"
  by (simp add: py_sort_reverse_def set_py_sort)

text \<open>On a linear order of keys the model of \<open>list.sort\<close> is the library's stable sort.\<close>

lemma insort_lt_linorder:
  fixes key :: "'a \<Rightarrow> 'k::linorder"
  shows "insort_lt (<) key x xs = insort_key key x xs"
  by (induction xs) auto

lemma py_sort_linorder:
  fixes key :: "'a \<Rightarrow> 'k::linorder"
  shows "py_sort (<) key xs = sort_key key xs"
  by (induction xs) (simp_all add: py_sort_def insort_lt_linorder)

lemma py_sort_reverse_descending:
  fixes key :: "'a \<Rightarrow> 'k::linorder"
  shows "sorted (rev (map key (py_sort_reverse (<) key xs)))"
  by (simp add: py_sort_reverse_def py_sort_linorder rev_map)

lemma py_sort_reverse_stable:
  fixes key :: "'a \<Rightarrow> 'k::linorder"
  shows "filter (\<lambda>y. key y = k) (py_sort_reverse (<) key xs) = filter (\<lambda>y. key y = k) xs"
proof -
  have "filter (\<lambda>y. key y = k) (sort_key key (rev xs)) = filter (\<lambda>y. key y = k) (rev xs)"
    by (rule sort_key_stable)
  then have "rev (filter (\<lambda>y. key y = k) (sort_key key (rev xs)))
             = rev (filter (\<lambda>y. key y = k) (rev xs))"
    by simp
  then show ?thesis
    by (simp add: py_sort_reverse_def py_sort_linorder rev_filter)
qed

text \<open>A loop whose body never raises is a filtering map.\<close>

lemma for_each_total:
  assumes "\<And>x. body x = Inr (g x)"
  shows "for_each body xs = Inr (concat (map (\<lambda>x. case g x of None \<Rightarrow> [] | Some r \<Rightarrow> [r]) xs))"
  by (induction xs) (simp_all add: assms)

section \<open>Properties of the volume profile\<close>

text \<open>
  C7 (the behaviour of the code at the claim's own scenario): three bars that all close at
  100, with volumes 10, 20 and 30, and \<open>bins = 10\<close>. The ten price levels are all 100, so
  each of the nine buckets is the empty interval \<open>[100, 100)\<close>: every bucket has volume
  0, and the bucket volumes sum to 0, not to the input volume 60.
\<close>

theorem volume_profile_flat_series_loses_volume:
  "volume_profile [100, 100, 100] [10, 20, 30] 10
     = Inr (replicate 9 \<lparr> vp_price = Fin 100, vp_volume = 0 \<rparr>)
   \<and> total_bucket_volume (volume_profile [100, 100, 100] [10, 20, 30] 10) = 0
   \<and> sum_list [10, 20, 30 :: int] = 60"
  by (simp add: volume_profile_def linspace_def series_min_def series_max_def
      level_volume_def total_bucket_volume_def pf_sub_def inf_of_sign_def
      upt_conv_Cons numeral_eq_Suc Let_def)

section \<open>Unfolding the screens on concrete data\<close>

lemmas example_defs = tcs_overbought_def tcs_bullish_def infy_missing_fields_def
  fundamentals_without_pe_def technicals_without_rsi_def
  two_equal_scores_def contradictory_pe_def pe_between_5_and_20_def rsi_between_30_and_70_def
  equal_weights_def zero_weights_def screener_with_def example_stock_def
  strong_fundamentals_def bullish_technicals_def INDIAN_STOCKS_def
  no_fundamental_criteria_def no_technical_criteria_def

lemmas fund_defs = fundamental_screen_def fundamental_body_def fundamental_defaults_def
  fundamental_rejects_def market_cap_rejects_def pe_rejects_def roe_rejects_def debt_rejects_def
  margin_rejects_def growth_rejects_def dividend_rejects_def sector_rejects_def truthy_and_def
  or_default_def calculate_financial_score_def pe_points_def pb_points_def roe_points_def
  margin_points_def debt_points_def current_ratio_points_def growth_points_def
  dividend_points_def rating_of_def py_sort_reverse_def py_sort_def Let_def

lemmas tech_defs = technical_screen_def technical_body_def technical_defaults_def
  technical_rejects_def rsi_rejects_def sma20_rejects_def sma50_rejects_def macd_rejects_def
  volume_spike_rejects_def min_volume_rejects_def cell_and_def cell_truthy_def or_default_def
  technical_score_pct_def macd_above_signal_def tech_row_of_def price_vs_def pf_sub_def
  py_sort_reverse_def py_sort_def

lemmas comb_defs = combined_body_def technical_lookup_of_def default_weights_def
  chosen_weights_def tech_score_or_0_def

section \<open>Facts about the screening loops\<close>

lemma for_each_Inr:
  "for_each body xs = Inr rows \<Longrightarrow> rows = List.map_filter (pick body) xs"
proof (induction xs arbitrary: rows)
  case Nil
  then show ?case by (simp add: List.map_filter_simps)
next
  case (Cons x xs)
  then show ?case
    by (auto simp: List.map_filter_simps pick_def split: sum.splits option.splits)
qed

lemma for_each_no_raise:
  "(\<And>x e. body x \<noteq> Inl e) \<Longrightarrow> \<exists>rows. for_each body xs = Inr rows"
proof (induction xs)
  case Nil
  then show ?case by simp
next
  case (Cons x xs)
  then obtain rows where "for_each body xs = Inr rows" by blast
  moreover obtain r where "body x = Inr r" using Cons.prems by (cases "body x") auto
  ultimately show ?case by simp
qed

lemma length_map_filter: "length (List.map_filter g xs) = length (filter (\<lambda>x. g x \<noteq> None) xs)"
  by (simp add: List.map_filter_def)

lemma set_map_filter: "set (List.map_filter g xs) = {r. \<exists>x\<in>set xs. g x = Some r}"
  by (force simp: List.map_filter_def image_iff)

lemma fundamental_body_no_raise: "fundamental_body self sc symbol \<noteq> Inl e"
  by (simp add: fundamental_body_def Let_def split: option.splits)

lemma rsi_body_no_raise: "rsi_body self condition low high symbol \<noteq> Inl e"
  by (simp add: rsi_body_def split: option.splits)

section \<open>The rows of the fundamental screen\<close>

lemma map_of_map_filter:
  assumes "\<And>x r. g x = Some r \<Longrightarrow> h r = x"
  shows "map h (List.map_filter g xs) = filter (\<lambda>x. g x \<noteq> None) xs"
  using assms by (induction xs) (auto simp: List.map_filter_simps split: option.splits)

lemma fundamental_screen_rows:
  "fundamental_screen self c
     = py_sort_reverse (<) fr_financial_score
         (List.map_filter (pick (fundamental_body self (fundamental_defaults c))) (stock_universe self))"
proof -
  obtain rows where r: "for_each (fundamental_body self (fundamental_defaults c)) (stock_universe self) = Inr rows"
    using for_each_no_raise [of "fundamental_body self (fundamental_defaults c)"] fundamental_body_no_raise
    by blast
  then show ?thesis
    by (simp add: fundamental_screen_def for_each_Inr [OF r])
qed

lemma pick_fundamental_row:
  "pick (fundamental_body self sc) s = Some r \<Longrightarrow>
     fr_symbol r = s
     \<and> (\<exists>sd. cached self s = Some sd \<and> fr_pe_ratio r = fd_pe_ratio (sd_fundamental sd)
               \<and> \<not> fundamental_rejects sc (sd_fundamental sd))"
  by (auto simp: pick_def fundamental_body_def Let_def split: option.splits sum.splits if_splits)

lemma pick_fundamental_iff:
  "(\<exists>r. pick (fundamental_body self sc) s = Some r) \<longleftrightarrow>
     (\<exists>sd. cached self s = Some sd \<and> \<not> fundamental_rejects sc (sd_fundamental sd))"
  by (auto simp: pick_def fundamental_body_def Let_def split: option.splits)

lemma fundamental_screen_symbols:
  "fr_symbol ` set (fundamental_screen self c)
     = {s \<in> set (stock_universe self).
          \<exists>sd. cached self s = Some sd
             \<and> \<not> fundamental_rejects (fundamental_defaults c) (sd_fundamental sd)}"
    (is "?L = ?R")
proof -
  let ?g = "pick (fundamental_body self (fundamental_defaults c))"
  have "?L = fr_symbol ` {r. \<exists>s\<in>set (stock_universe self). ?g s = Some r}"
    by (simp only: fundamental_screen_rows set_py_sort_reverse set_map_filter)
  also have "\<dots> = {s \<in> set (stock_universe self). \<exists>r. ?g s = Some r}"
    using pick_fundamental_row [of self "fundamental_defaults c"] by (force simp: image_iff)
  also have "\<dots> = ?R"
    by (simp only: pick_fundamental_iff)
  finally show ?thesis .
qed

section \<open>The combined screen joins on the fundamental results\<close>

lemma technical_lookup_fold_None:
  "fold (\<lambda>result m. m(tr_symbol result \<mapsto> result)) rs m0 s = None
     \<longleftrightarrow> m0 s = None \<and> s \<notin> tr_symbol ` set rs"
  by (induction rs arbitrary: m0) auto

lemma technical_lookup_fold_Some:
  "fold (\<lambda>result m. m(tr_symbol result \<mapsto> result)) rs m0 s = Some t
     \<Longrightarrow> m0 s = Some t \<or> (t \<in> set rs \<and> tr_symbol t = s)"
proof (induction rs arbitrary: m0)
  case Nil
  then show ?case by simp
next
  case (Cons r rs)
  from Cons.IH [of "m0(tr_symbol r \<mapsto> r)"] Cons.prems show ?case
    by (auto split: if_splits)
qed

lemma technical_lookup_None:
  "technical_lookup_of rs s = None \<longleftrightarrow> s \<notin> tr_symbol ` set rs"
  by (simp add: technical_lookup_of_def technical_lookup_fold_None)

lemma technical_lookup_Some:
  "technical_lookup_of rs s = Some t \<Longrightarrow> t \<in> set rs \<and> tr_symbol t = s"
  using technical_lookup_fold_Some [of rs Map.empty s t] by (simp add: technical_lookup_of_def)

lemma pick_combined_row:
  "pick (combined_body w lk) f = Some r \<Longrightarrow>
     c_fund r = f \<and> c_tech r = lk (fr_symbol f)
     \<and> (\<exists>w_f w_t. w ''fundamental'' = Some w_f \<and> w ''technical'' = Some w_t
          \<and> c_combined_score r = fr_financial_score f * w_f + tech_score_or_0 (lk (fr_symbol f)) * w_t)"
  by (auto simp: pick_def combined_body_def Let_def split: option.splits sum.splits)

lemma pick_combined_defined:
  "w ''fundamental'' = Some w_f \<Longrightarrow> w ''technical'' = Some w_t \<Longrightarrow>
     \<exists>r. combined_body w lk f = Inr (Some r)"
  by (simp add: combined_body_def Let_def)

lemma combined_screen_cases:
  "combined_screen self fc tc weights = []
   \<or> combined_screen self fc tc weights
       = py_sort_reverse (<) c_combined_score
           (List.map_filter
              (pick (combined_body (chosen_weights weights)
                       (technical_lookup_of (technical_screen self tc))))
              (fundamental_screen self fc))"
proof (cases "for_each (combined_body (chosen_weights weights)
                 (technical_lookup_of (technical_screen self tc))) (fundamental_screen self fc)")
  case (Inl e)
  then show ?thesis by (simp add: combined_screen_def chosen_weights_def)
next
  case (Inr rows)
  then show ?thesis
    by (simp add: combined_screen_def chosen_weights_def for_each_Inr [OF Inr])
qed

lemma combined_screen_row:
  assumes "r \<in> set (combined_screen self fc tc weights)"
  shows "pick (combined_body (chosen_weights weights)
                 (technical_lookup_of (technical_screen self tc))) (c_fund r) = Some r
         \<and> c_fund r \<in> set (fundamental_screen self fc)"
proof -
  let ?g = "pick (combined_body (chosen_weights weights)
                       (technical_lookup_of (technical_screen self tc)))"
  from assms combined_screen_cases [of self fc tc weights]
  have "r \<in> set (List.map_filter ?g (fundamental_screen self fc))"
    by (auto simp: set_py_sort_reverse)
  then obtain f where f: "f \<in> set (fundamental_screen self fc)" "?g f = Some r"
    by (auto simp: set_map_filter)
  with pick_combined_row [OF f(2)] show ?thesis by simp
qed



lemma tcs_overbought_fundamental:
  "map fr_symbol (fundamental_screen tcs_overbought no_fundamental_criteria) = [''TCS'']"
  by (simp add: example_defs fund_defs)

lemma tcs_overbought_technical:
  "technical_screen tcs_overbought no_technical_criteria = []"
  by (simp add: example_defs tech_defs)

text \<open>
  C1 (counterexample): on the real universe with data for TCS only, TCS passes the
  fundamental screen and fails the technical screen (RSI 80 is outside the default range
  30 to 70), and still it is in the result of the combined screen.
\<close>

theorem combined_screen_keeps_symbol_failing_technical:
  "map (\<lambda>r. fr_symbol (c_fund r))
       (combined_screen tcs_overbought no_fundamental_criteria no_technical_criteria None) = [''TCS'']
   \<and> map fr_symbol (fundamental_screen tcs_overbought no_fundamental_criteria) = [''TCS'']
   \<and> map tr_symbol (technical_screen tcs_overbought no_technical_criteria) = []"
proof -
  have "map (\<lambda>r. fr_symbol (c_fund r))
       (combined_screen tcs_overbought no_fundamental_criteria no_technical_criteria None) = [''TCS'']"
    unfolding combined_screen_def tcs_overbought_technical
    by (simp add: example_defs fund_defs comb_defs)
  then show ?thesis
    by (simp add: tcs_overbought_fundamental tcs_overbought_technical)
qed

lemma combined_screen_all_funds:
  assumes "well_formed_weights weights"
  shows "map c_fund (List.map_filter
              (pick (combined_body (chosen_weights weights) lk)) fs) = fs
     \<and> for_each (combined_body (chosen_weights weights) lk) fs
        = Inr (List.map_filter (pick (combined_body (chosen_weights weights) lk)) fs)"
proof -
  have "\<exists>w_f w_t. chosen_weights weights ''fundamental'' = Some w_f
                 \<and> chosen_weights weights ''technical'' = Some w_t"
  proof (cases weights)
    case None
    then have "chosen_weights weights ''fundamental'' = Some (6/10)"
      and "chosen_weights weights ''technical'' = Some (4/10)"
      by (simp_all add: chosen_weights_def default_weights_def)
    then show ?thesis by blast
  next
    case (Some w)
    with assms show ?thesis by (auto simp: well_formed_weights_def chosen_weights_def)
  qed
  then obtain w_f w_t where
    w: "chosen_weights weights ''fundamental'' = Some w_f" "chosen_weights weights ''technical'' = Some w_t"
    by blast
  have tot: "\<And>f e. combined_body (chosen_weights weights) lk f \<noteq> Inl e"
    using pick_combined_defined [OF w] by (metis sum.distinct(1))
  have some: "\<And>f. pick (combined_body (chosen_weights weights) lk) f \<noteq> None"
    using pick_combined_defined [OF w] by (metis pick_def sum.case(2) option.distinct(1))
  have "map c_fund (List.map_filter (pick (combined_body (chosen_weights weights) lk)) fs)
        = filter (\<lambda>f. pick (combined_body (chosen_weights weights) lk) f \<noteq> None) fs"
    by (rule map_of_map_filter) (simp add: pick_combined_row)
  then have "map c_fund (List.map_filter (pick (combined_body (chosen_weights weights) lk)) fs) = fs"
    using some by simp
  moreover obtain rows where "for_each (combined_body (chosen_weights weights) lk) fs = Inr rows"
    using for_each_no_raise [of "combined_body (chosen_weights weights) lk"] tot by blast
  ultimately show ?thesis using for_each_Inr by metis
qed

text \<open>
  C1 (amended): the combined screen is a left join on the fundamental results. Every row
  of \<open>combined_screen\<close> carries a row of \<open>fundamental_screen\<close>; when the weights are
  absent or have both keys, every row of \<open>fundamental_screen\<close> is carried by some row;
  a row has no technical part exactly when its symbol is not in the result of
  \<open>technical_screen\<close>, and otherwise its technical part is a row of \<open>technical_screen\<close>
  for the same symbol.
\<close>

theorem combined_screen_is_left_join:
  "set (map c_fund (combined_screen self fc tc weights)) \<subseteq> set (fundamental_screen self fc)
   \<and> (well_formed_weights weights \<longrightarrow>
        set (map c_fund (combined_screen self fc tc weights)) = set (fundamental_screen self fc))
   \<and> (\<forall>r \<in> set (combined_screen self fc tc weights).
        (c_tech r = None \<longleftrightarrow> fr_symbol (c_fund r) \<notin> tr_symbol ` set (technical_screen self tc))
        \<and> (\<forall>t. c_tech r = Some t \<longrightarrow>
              t \<in> set (technical_screen self tc) \<and> tr_symbol t = fr_symbol (c_fund r)))"
proof (intro conjI impI ballI allI)
  show "set (map c_fund (combined_screen self fc tc weights)) \<subseteq> set (fundamental_screen self fc)"
    using combined_screen_row [of _ self fc tc weights] by auto
next
  assume wf: "well_formed_weights weights"
  let ?lk = "technical_lookup_of (technical_screen self tc)"
  let ?g = "pick (combined_body (chosen_weights weights) ?lk)"
  from combined_screen_all_funds [OF wf, of ?lk "fundamental_screen self fc"]
  have e: "combined_screen self fc tc weights
          = py_sort_reverse (<) c_combined_score (List.map_filter ?g (fundamental_screen self fc))"
    and m: "map c_fund (List.map_filter ?g (fundamental_screen self fc)) = fundamental_screen self fc"
    by (simp_all add: combined_screen_def chosen_weights_def)
  have "set (map c_fund (combined_screen self fc tc weights))
          = set (map c_fund (List.map_filter ?g (fundamental_screen self fc)))"
    unfolding e by (simp only: set_map set_py_sort_reverse)
  also have "\<dots> = set (fundamental_screen self fc)"
    by (simp only: m)
  finally show "set (map c_fund (combined_screen self fc tc weights)) = set (fundamental_screen self fc)" .
next
  fix r assume r: "r \<in> set (combined_screen self fc tc weights)"
  from combined_screen_row [OF r] pick_combined_row
  have ct: "c_tech r = technical_lookup_of (technical_screen self tc) (fr_symbol (c_fund r))"
    by metis
  show "c_tech r = None \<longleftrightarrow> fr_symbol (c_fund r) \<notin> tr_symbol ` set (technical_screen self tc)"
    by (simp only: ct technical_lookup_None)
  fix t assume "c_tech r = Some t"
  with ct technical_lookup_Some [of "technical_screen self tc" "fr_symbol (c_fund r)" t]
  show "t \<in> set (technical_screen self tc)" and "tr_symbol t = fr_symbol (c_fund r)"
    by simp_all
qed

theorem combined_screen_is_left_join_witness:
  "well_formed_weights None
   \<and> set (map c_fund (combined_screen tcs_overbought no_fundamental_criteria no_technical_criteria None))
       = set (fundamental_screen tcs_overbought no_fundamental_criteria)
   \<and> map fr_symbol (fundamental_screen tcs_overbought no_fundamental_criteria) = [''TCS'']"
  using combined_screen_is_left_join [of tcs_overbought no_fundamental_criteria no_technical_criteria None]
    tcs_overbought_fundamental
  by (simp add: well_formed_weights_def)

section \<open>The combined score uses the weights as given\<close>

lemma tcs_bullish_fundamental:
  "map fr_financial_score (fundamental_screen tcs_bullish no_fundamental_criteria) = [100]"
  by (simp add: example_defs fund_defs)

lemma tcs_bullish_technical:
  "technical_screen tcs_bullish no_technical_criteria
     = [tech_row_of ''TCS'' bullish_technicals 0]"
  by (simp add: example_defs tech_defs)

lemma tcs_bullish_technical_score: "tr_technical_score (tech_row_of ''TCS'' bullish_technicals 0) = 100"
  by (simp add: example_defs tech_defs)

lemma tcs_bullish_combined:
  "w ''fundamental'' = Some w_f \<Longrightarrow> w ''technical'' = Some w_t \<Longrightarrow>
   map (\<lambda>r. (fr_financial_score (c_fund r), tech_score_or_0 (c_tech r), c_combined_score r))
       (combined_screen tcs_bullish no_fundamental_criteria no_technical_criteria (Some w))
     = [(100, 100, 100 * w_f + 100 * w_t)]"
  unfolding combined_screen_def tcs_bullish_technical
  by (simp add: example_defs fund_defs comb_defs tech_defs)

text \<open>
  C2 (counterexample): TCS has financial score 100 and technical score 100. With the
  weights \<open>{'fundamental': 1, 'technical': 1}\<close> the combined score is 200, not the
  renormalised \<open>100 * (1/2) + 100 * (1/2)\<close>; with both weights 0 it is 0, not the score
  \<open>100 * 0.6 + 100 * 0.4\<close> of the default weights.
\<close>

theorem combined_score_is_not_renormalised:
  "map (\<lambda>r. (fr_financial_score (c_fund r), tech_score_or_0 (c_tech r), c_combined_score r))
       (combined_screen tcs_bullish no_fundamental_criteria no_technical_criteria (Some equal_weights))
     = [(100, 100, 200)]
   \<and> (200 :: real) \<noteq> 100 * (1 / (1 + 1)) + 100 * (1 / (1 + 1))
   \<and> map (\<lambda>r. (fr_financial_score (c_fund r), tech_score_or_0 (c_tech r), c_combined_score r))
       (combined_screen tcs_bullish no_fundamental_criteria no_technical_criteria (Some zero_weights))
     = [(100, 100, 0)]
   \<and> (0 :: real) \<noteq> 100 * (6 / 10) + 100 * (4 / 10)"
  using tcs_bullish_combined [of equal_weights 1 1] tcs_bullish_combined [of zero_weights 0 0]
  by (simp add: equal_weights_def zero_weights_def)

text \<open>
  C2 (amended): the combined score of every row is
  \<open>financial_score * w_f + technical_score * w_t\<close> with the weights exactly as the caller
  gave them (the technical score counts as 0 for a symbol without a technical row); the
  defaults 0.6 and 0.4 are used when no weights are given. The weights are not
  renormalised, so the score equals the renormalised one when \<open>w_f + w_t = 1\<close>.
\<close>

theorem combined_score_is_weighted_sum:
  assumes "r \<in> set (combined_screen self fc tc weights)"
  shows "(weights = None \<longrightarrow>
            c_combined_score r
              = fr_financial_score (c_fund r) * (6/10) + tech_score_or_0 (c_tech r) * (4/10))
       \<and> (\<forall>w w_f w_t. weights = Some w \<and> w ''fundamental'' = Some w_f \<and> w ''technical'' = Some w_t
            \<longrightarrow> c_combined_score r
                  = fr_financial_score (c_fund r) * w_f + tech_score_or_0 (c_tech r) * w_t)
       \<and> (\<forall>w w_f w_t. weights = Some w \<and> w ''fundamental'' = Some w_f \<and> w ''technical'' = Some w_t
              \<and> w_f + w_t = 1
            \<longrightarrow> c_combined_score r
                  = fr_financial_score (c_fund r) * (w_f / (w_f + w_t))
                    + tech_score_or_0 (c_tech r) * (w_t / (w_f + w_t)))"
proof -
  let ?lk = "technical_lookup_of (technical_screen self tc)"
  from combined_screen_row [OF assms]
  have p: "pick (combined_body (chosen_weights weights) ?lk) (c_fund r) = Some r" by simp
  from pick_combined_row [OF p] obtain w_f w_t where
    w: "chosen_weights weights ''fundamental'' = Some w_f"
       "chosen_weights weights ''technical'' = Some w_t"
    and sc: "c_combined_score r
       = fr_financial_score (c_fund r) * w_f + tech_score_or_0 (?lk (fr_symbol (c_fund r))) * w_t"
    and ct: "c_tech r = ?lk (fr_symbol (c_fund r))"
    by auto
  from sc ct have sc': "c_combined_score r
       = fr_financial_score (c_fund r) * w_f + tech_score_or_0 (c_tech r) * w_t"
    by simp
  show ?thesis
  proof (cases weights)
    case None
    with w have "w_f = 6/10" "w_t = 4/10"
      by (simp_all add: chosen_weights_def default_weights_def)
    with sc' None show ?thesis by simp
  next
    case (Some w')
    with w have "w' ''fundamental'' = Some w_f" "w' ''technical'' = Some w_t"
      by (simp_all add: chosen_weights_def)
    with sc' Some show ?thesis by auto
  qed
qed

lemma tcs_bullish_row:
  "combined_screen tcs_bullish no_fundamental_criteria no_technical_criteria (Some equal_weights) \<noteq> []"
  using tcs_bullish_combined [of equal_weights 1 1] by (auto simp: equal_weights_def)

theorem combined_score_is_weighted_sum_witness:
  "equal_weights ''fundamental'' = Some 1 \<and> equal_weights ''technical'' = Some 1
   \<and> combined_screen tcs_bullish no_fundamental_criteria no_technical_criteria (Some equal_weights) \<noteq> []
   \<and> list_all (\<lambda>r. c_combined_score r = fr_financial_score (c_fund r) * 1 + tech_score_or_0 (c_tech r) * 1)
        (combined_screen tcs_bullish no_fundamental_criteria no_technical_criteria (Some equal_weights))"
proof -
  have k: "equal_weights ''fundamental'' = Some 1" "equal_weights ''technical'' = Some 1"
    by (simp_all add: equal_weights_def)
  have "list_all (\<lambda>r. c_combined_score r = fr_financial_score (c_fund r) * 1 + tech_score_or_0 (c_tech r) * 1)
        (combined_screen tcs_bullish no_fundamental_criteria no_technical_criteria (Some equal_weights))"
    unfolding list_all_iff
  proof
    fix r assume "r \<in> set (combined_screen tcs_bullish no_fundamental_criteria no_technical_criteria (Some equal_weights))"
    from combined_score_is_weighted_sum [OF this] k
    show "c_combined_score r = fr_financial_score (c_fund r) * 1 + tech_score_or_0 (c_tech r) * 1"
      by blast
  qed
  with k tcs_bullish_row show ?thesis by simp
qed

section \<open>Contradictory criteria are applied, not rejected\<close>

lemma not_rejected_pe: "\<not> fundamental_rejects sc f \<Longrightarrow> \<not> pe_rejects sc f"
  by (auto simp: fundamental_rejects_def split: if_splits)

lemma fundamental_screen_row:
  assumes "r \<in> set (fundamental_screen self c)"
  shows "\<exists>sd. fr_symbol r \<in> set (stock_universe self) \<and> cached self (fr_symbol r) = Some sd
            \<and> fr_pe_ratio r = fd_pe_ratio (sd_fundamental sd)
            \<and> \<not> fundamental_rejects (fundamental_defaults c) (sd_fundamental sd)"
proof -
  from assms obtain s where s: "s \<in> set (stock_universe self)"
      "pick (fundamental_body self (fundamental_defaults c)) s = Some r"
    by (auto simp: fundamental_screen_rows set_py_sort_reverse set_map_filter)
  from pick_fundamental_row [OF s(2)] s(1) show ?thesis by auto
qed

lemma infy_contradictory_result:
  "map fr_symbol (fundamental_screen infy_missing_fields contradictory_pe) = [''INFY'']"
  by (simp add: example_defs fund_defs)

text \<open>
  C3 (counterexample): with \<open>min_pe_ratio = 30 > max_pe_ratio = 10\<close> the screen raises
  nothing and processes the universe: INFY, whose PE ratio is not reported, is returned.
\<close>

theorem infy_passes_contradictory_pe_range:
  "min_pe_ratio contradictory_pe = Some 30 \<and> max_pe_ratio contradictory_pe = Some 10
   \<and> map fr_symbol (fundamental_screen infy_missing_fields contradictory_pe) = [''INFY'']"
  using infy_contradictory_result
  by (simp add: contradictory_pe_def no_fundamental_criteria_def)

text \<open>
  C3 (amended): criteria with \<open>min_pe_ratio > max_pe_ratio\<close> are applied as they are. The
  screen returns a list (it has no error result): every returned row has no PE ratio or
  the PE ratio 0, and the returned symbols are exactly the symbols of the universe with
  data, without a non-zero PE ratio, that no filter rejects.
\<close>

theorem contradictory_pe_range_is_applied:
  assumes "sc_max_pe_ratio (fundamental_defaults c) < sc_min_pe_ratio (fundamental_defaults c)"
  shows "(\<forall>r \<in> set (fundamental_screen self c). fr_pe_ratio r = None \<or> fr_pe_ratio r = Some 0)
       \<and> fr_symbol ` set (fundamental_screen self c)
           = {s \<in> set (stock_universe self).
                \<exists>sd. cached self s = Some sd
                   \<and> (fd_pe_ratio (sd_fundamental sd) = None \<or> fd_pe_ratio (sd_fundamental sd) = Some 0)
                   \<and> \<not> fundamental_rejects (fundamental_defaults c) (sd_fundamental sd)}"
proof -
  let ?sc = "fundamental_defaults c"
  have key: "fd_pe_ratio f = None \<or> fd_pe_ratio f = Some 0" if "\<not> fundamental_rejects ?sc f" for f
  proof -
    from that have "\<not> pe_rejects ?sc f" by (rule not_rejected_pe)
    with assms show ?thesis
      by (cases "fd_pe_ratio f") (auto simp: pe_rejects_def truthy_and_def)
  qed
  have "\<forall>r \<in> set (fundamental_screen self c). fr_pe_ratio r = None \<or> fr_pe_ratio r = Some 0"
  proof
    fix r assume "r \<in> set (fundamental_screen self c)"
    from fundamental_screen_row [OF this] key show "fr_pe_ratio r = None \<or> fr_pe_ratio r = Some 0"
      by metis
  qed
  moreover have "fr_symbol ` set (fundamental_screen self c)
           = {s \<in> set (stock_universe self).
                \<exists>sd. cached self s = Some sd
                   \<and> (fd_pe_ratio (sd_fundamental sd) = None \<or> fd_pe_ratio (sd_fundamental sd) = Some 0)
                   \<and> \<not> fundamental_rejects (fundamental_defaults c) (sd_fundamental sd)}"
    unfolding fundamental_screen_symbols using key by blast
  ultimately show ?thesis by blast
qed

theorem contradictory_pe_range_is_applied_witness:
  "sc_max_pe_ratio (fundamental_defaults contradictory_pe)
     < sc_min_pe_ratio (fundamental_defaults contradictory_pe)
   \<and> fundamental_screen infy_missing_fields contradictory_pe \<noteq> []
   \<and> list_all (\<lambda>r. fr_pe_ratio r = None \<or> fr_pe_ratio r = Some 0)
        (fundamental_screen infy_missing_fields contradictory_pe)"
proof -
  have h: "sc_max_pe_ratio (fundamental_defaults contradictory_pe)
     < sc_min_pe_ratio (fundamental_defaults contradictory_pe)"
    by (simp add: contradictory_pe_def no_fundamental_criteria_def fundamental_defaults_def or_default_def)
  have "fundamental_screen infy_missing_fields contradictory_pe \<noteq> []"
    using infy_contradictory_result by auto
  with h contradictory_pe_range_is_applied [OF h, of infy_missing_fields]
  show ?thesis by (simp add: list_all_iff)
qed


section \<open>RSI on zero denominators\<close>

lemma length_rolling: "length (rolling w agg xs) = length xs"
  by (simp add: rolling_def)

lemma nth_rolling:
  "i < length xs \<Longrightarrow>
   rolling w agg xs ! i
     = (if w = 0 \<or> Suc i < w \<or> NaN \<in> set (window_ending w i xs) then NaN
        else agg (window_ending w i xs))"
  by (simp add: rolling_def)

lemma length_diff: "length (diff xs) = length xs"
  by (cases xs) (simp_all add: diff_def)

lemma length_avg: "length (avg_gain close w) = length close" "length (avg_loss close w) = length close"
  by (simp_all add: avg_gain_def avg_loss_def length_rolling gain_def loss_def length_diff)

lemma nth_rsi:
  "i < length close \<Longrightarrow> rsi close w ! i = rsi_of (avg_gain close w ! i) (avg_loss close w ! i)"
  by (simp add: rsi_def length_avg)

lemma rsi_of_zero_loss: "0 < g \<Longrightarrow> rsi_of (Fin g) (Fin 0) = Fin 100"
  by (simp add: rsi_of_def inf_of_sign_def pf_sub_def)

lemma rsi_of_zero_zero: "rsi_of (Fin 0) (Fin 0) = NaN"
  by (simp add: rsi_of_def inf_of_sign_def pf_sub_def)

lemma rsi_of_NaN: "rsi_of NaN NaN = NaN"
  by (simp add: rsi_of_def pf_sub_def)

lemma rsi_of_ratio:
  "l \<noteq> 0 \<Longrightarrow> 1 + g / l \<noteq> 0 \<Longrightarrow> rsi_of (Fin g) (Fin l) = Fin (100 - 100 / (1 + g / l))"
  by (simp add: rsi_of_def pf_sub_def)

lemma map2_diff_flat:
  "map2 (\<lambda>a b. Fin (b - a)) (c # replicate n c) (replicate n c) = replicate n (Fin 0)"
  by (induction n) simp_all

lemma diff_flat: "diff (c # replicate n c) = NaN # replicate n (Fin 0)"
  using map2_diff_flat [of c n] by (simp add: diff_def)

lemma gain_flat: "gain (replicate n c) = replicate n (Fin 0)"
proof (cases n)
  case 0
  then show ?thesis by (simp add: gain_def diff_def)
next
  case (Suc m)
  then show ?thesis by (simp add: gain_def diff_flat)
qed

lemma loss_flat: "loss (replicate n c) = replicate n (Fin 0)"
proof (cases n)
  case 0
  then show ?thesis by (simp add: loss_def diff_def)
next
  case (Suc m)
  then show ?thesis by (simp add: loss_def diff_flat)
qed

lemma pf_sum_zeros: "pf_sum (replicate k (Fin 0)) = Fin 0"
  by (induction k) (simp_all add: pf_sum_def)

lemma pf_mean_zeros: "pf_mean (replicate k (Fin 0)) = (if k = 0 then NaN else Fin 0)"
  by (simp add: pf_mean_def pf_sum_zeros inf_of_sign_def)

lemma window_replicate:
  "window_ending w i (replicate n x) = replicate (min w (n - (Suc i - w))) x"
  by (simp add: window_ending_def min.commute)

lemma rolling_mean_zeros:
  assumes "i < n"
  shows "rolling w pf_mean (replicate n (Fin 0)) ! i = (if w = 0 \<or> Suc i < w then NaN else Fin 0)"
proof -
  have "min w (n - (Suc i - w)) = 0 \<longleftrightarrow> w = 0" using assms by auto
  with assms show ?thesis
    by (simp add: nth_rolling window_replicate pf_mean_zeros)
qed

lemma avg_flat:
  assumes "i < n"
  shows "avg_gain (replicate n c) w ! i = (if w = 0 \<or> Suc i < w then NaN else Fin 0)"
    and "avg_loss (replicate n c) w ! i = (if w = 0 \<or> Suc i < w then NaN else Fin 0)"
  using assms by (simp_all add: avg_gain_def avg_loss_def gain_flat loss_flat rolling_mean_zeros)

lemma rsi_flat:
  assumes "i < n"
  shows "rsi (replicate n c) w ! i = NaN"
  using assms by (simp add: nth_rsi avg_flat rsi_of_zero_zero rsi_of_NaN)

lemma rsi_flat_15: "technical_indicators_rsi (replicate 15 100) ! 14 = NaN"
  by (simp add: technical_indicators_rsi_def rsi_flat)

lemma avg_flat_15:
  "avg_gain (replicate 15 100) 14 ! 14 = Fin 0 \<and> avg_loss (replicate 15 100) 14 ! 14 = Fin 0"
  by (simp add: avg_flat)

text \<open>
  C5 (counterexample): fifteen bars that all close at 100. At the last bar, past the
  warm-up of the window 14, the average gain and the average loss are both 0 and the RSI
  column of \<open>calculate_technical_indicators\<close> (and \<open>rsi\<close> of app.py alike) is NaN, not 50.
\<close>

theorem rsi_of_flat_series_is_nan:
  "avg_gain (replicate 15 100) 14 ! 14 = Fin 0 \<and> avg_loss (replicate 15 100) 14 ! 14 = Fin 0
   \<and> rsi (replicate 15 100) 14 ! 14 = NaN
   \<and> technical_indicators_rsi (replicate 15 100) ! 14 = NaN
   \<and> NaN \<noteq> Fin 50"
  using avg_flat_15 rsi_flat_15 by (simp add: technical_indicators_rsi_def)

text \<open>
  C5 (amended): at every bar, when the average loss over the window is zero and the
  average gain is positive the RSI is 100 (the division yields an infinity, which the
  formula maps to 100); when both averages are zero the RSI is NaN: the division 0/0 is
  not replaced by a fallback value. For a series whose closes are all equal the RSI is
  therefore NaN at every bar, after the warm-up window as well as inside it.
\<close>

theorem rsi_zero_denominator:
  assumes "i < length close"
  shows "(\<forall>g. avg_gain close w ! i = Fin g \<and> avg_loss close w ! i = Fin 0 \<and> 0 < g
             \<longrightarrow> rsi close w ! i = Fin 100)
       \<and> (avg_gain close w ! i = Fin 0 \<and> avg_loss close w ! i = Fin 0 \<longrightarrow> rsi close w ! i = NaN)
       \<and> (\<forall>c. close = replicate (length close) c \<longrightarrow> rsi close w ! i = NaN)
       \<and> (\<forall>c. close = replicate (length close) c \<and> 0 < w \<and> w \<le> Suc i
             \<longrightarrow> avg_gain close w ! i = Fin 0 \<and> avg_loss close w ! i = Fin 0)"
proof (intro conjI allI impI)
  fix g assume "avg_gain close w ! i = Fin g \<and> avg_loss close w ! i = Fin 0 \<and> 0 < g"
  then show "rsi close w ! i = Fin 100"
    by (simp add: nth_rsi [OF assms] rsi_of_zero_loss)
next
  assume "avg_gain close w ! i = Fin 0 \<and> avg_loss close w ! i = Fin 0"
  then show "rsi close w ! i = NaN"
    by (simp add: nth_rsi [OF assms] rsi_of_zero_zero)
next
  fix c assume "close = replicate (length close) c"
  then show "rsi close w ! i = NaN"
    using rsi_flat [OF assms, of c w] by simp
next
  fix c assume a: "close = replicate (length close) c \<and> 0 < w \<and> w \<le> Suc i"
  with avg_flat [OF assms, of c w]
  have "avg_gain (replicate (length close) c) w ! i = Fin 0"
    and "avg_loss (replicate (length close) c) w ! i = Fin 0"
    by auto
  with a show "avg_gain close w ! i = Fin 0" and "avg_loss close w ! i = Fin 0"
    by simp_all
qed

lemma rising_avgs: "avg_gain rising_3 2 ! 2 = Fin (3/2) \<and> avg_loss rising_3 2 ! 2 = Fin 0"
  by (simp add: rising_3_def avg_gain_def avg_loss_def gain_def loss_def diff_def rolling_def
      window_ending_def pf_mean_def pf_sum_def upt_conv_Cons numeral_eq_Suc)

theorem rsi_zero_denominator_witness:
  "(2::nat) < length rising_3
   \<and> avg_gain rising_3 2 ! 2 = Fin (3/2) \<and> avg_loss rising_3 2 ! 2 = Fin 0 \<and> (0::real) < 3/2
   \<and> rsi rising_3 2 ! 2 = Fin 100
   \<and> rsi (replicate 3 100) 2 ! 2 = NaN"
proof -
  have l: "(2::nat) < length rising_3" by (simp add: rising_3_def)
  have l': "(2::nat) < length (replicate 3 (100::real))" by simp
  from rsi_zero_denominator [OF l, of 2]
  have "avg_gain rising_3 2 ! 2 = Fin (3/2) \<and> avg_loss rising_3 2 ! 2 = Fin 0 \<and> (0::real) < 3/2
          \<longrightarrow> rsi rising_3 2 ! 2 = Fin 100"
    by blast
  with rising_avgs have "rsi rising_3 2 ! 2 = Fin 100" by simp
  moreover from rsi_zero_denominator [OF l', of 2]
  have "rsi (replicate 3 100) 2 ! 2 = NaN" by simp
  ultimately show ?thesis using l rising_avgs by simp
qed

section \<open>Supertrend\<close>

lemma supertrend_fold:
  "fold (supertrend_step df p m) [0..<k] (True, [], [])
     = (trend_after df p m (k - 1), map (line_at df p m) [0..<k], map (direction_at df p m) [0..<k])"
proof (induction k)
  case 0
  then show ?case by simp
next
  case (Suc k)
  show ?case
  proof (cases k)
    case 0
    then show ?thesis
      by (simp add: supertrend_step_def line_at_def direction_at_def)
  next
    case (Suc j)
    with Suc.IH show ?thesis
      by (simp add: supertrend_step_def line_at_def direction_at_def Let_def)
  qed
qed

lemma supertrend_closed_form:
  "supertrend df p m = (map (line_at df p m) [0..<length df], map (direction_at df p m) [0..<length df])"
  by (simp add: supertrend_def supertrend_fold)

lemma pf_max_list_Fin:
  "\<exists>M. pf_max_list (map Fin (v # vs)) = Fin M \<and> v \<le> M \<and> (\<forall>u \<in> set vs. u \<le> M)"
proof (induction vs arbitrary: v)
  case Nil
  then show ?case by simp
next
  case (Cons u us)
  from Cons.IH [of u] obtain M where
    M: "pf_max_list (map Fin (u # us)) = Fin M" "u \<le> M" "\<forall>x \<in> set us. x \<le> M"
    by blast
  show ?case
  proof (cases "M < v")
    case True
    with M show ?thesis by (auto simp: Let_def intro: order_trans less_imp_le)
  next
    case False
    with M show ?thesis by (auto simp: Let_def)
  qed
qed

lemma pf_min_list_Fin:
  "\<exists>M. pf_min_list (map Fin (v # vs)) = Fin M \<and> M \<le> v \<and> (\<forall>u \<in> set vs. M \<le> u)"
proof (induction vs arbitrary: v)
  case Nil
  then show ?case by simp
next
  case (Cons u us)
  from Cons.IH [of u] obtain M where
    M: "pf_min_list (map Fin (u # us)) = Fin M" "M \<le> u" "\<forall>x \<in> set us. M \<le> x"
    by blast
  show ?case
  proof (cases "v < M")
    case True
    with M show ?thesis by (auto simp: Let_def intro: order_trans less_imp_le)
  next
    case False
    with M show ?thesis by (auto simp: Let_def)
  qed
qed

lemma window_map: "window_ending w i (map f xs) = map f (window_ending w i xs)"
  by (simp add: window_ending_def take_map drop_map)

lemma window_nonempty: "i < length xs \<Longrightarrow> 0 < w \<Longrightarrow> window_ending w i xs \<noteq> []"
  by (auto simp: window_ending_def)

lemma window_subset: "set (window_ending w i xs) \<subseteq> set xs"
  unfolding window_ending_def by (meson set_take_subset set_drop_subset subset_trans)

lemma band_width_nonneg:
  assumes "i < length df" and "\<forall>b \<in> set df. Low b \<le> High b"
  shows "nonneg_or_nan
           (pf_sub (rolling p pf_max_list (map (\<lambda>b. Fin (High b)) df) ! i)
                   (rolling p pf_min_list (map (\<lambda>b. Fin (Low b)) df) ! i))"
proof (cases "p = 0 \<or> Suc i < p")
  case True
  with assms(1) show ?thesis
    by (auto simp: nth_rolling nonneg_or_nan_def pf_sub_def)
next
  case False
  let ?W = "window_ending p i df"
  from False assms(1) have "?W \<noteq> []" by (simp add: window_nonempty)
  then obtain b bs where W: "?W = b # bs" by (cases ?W) auto
  have sub: "set ?W \<subseteq> set df" by (rule window_subset)
  with W assms(2) have b: "Low b \<le> High b" by auto
  have hw: "window_ending p i (map (\<lambda>b. Fin (High b)) df) = map Fin (High b # map High bs)"
    and lw: "window_ending p i (map (\<lambda>b. Fin (Low b)) df) = map Fin (Low b # map Low bs)"
    using W window_map [of p i "\<lambda>b. Fin (High b)" df] window_map [of p i "\<lambda>b. Fin (Low b)" df]
    by simp_all
  obtain M where M: "pf_max_list (map Fin (High b # map High bs)) = Fin M" "High b \<le> M"
    using pf_max_list_Fin [of "High b" "map High bs"] by blast
  obtain L where L: "pf_min_list (map Fin (Low b # map Low bs)) = Fin L" "L \<le> Low b"
    using pf_min_list_Fin [of "Low b" "map Low bs"] by blast
  have nn: "NaN \<notin> set (map Fin (High b # map High bs))" "NaN \<notin> set (map Fin (Low b # map Low bs))"
    by auto
  from False assms(1) have
    "rolling p pf_max_list (map (\<lambda>b. Fin (High b)) df) ! i = Fin M"
    "rolling p pf_min_list (map (\<lambda>b. Fin (Low b)) df) ! i = Fin L"
    using nn by (simp_all add: nth_rolling hw lw M L del: list.map set_map)
  with M L b show ?thesis
    by (simp add: nonneg_or_nan_def pf_sub_def)
qed

lemma pf_sum_nonneg:
  "list_all nonneg_or_nan vs \<Longrightarrow> NaN \<notin> set vs \<Longrightarrow> \<exists>s. pf_sum vs = Fin s \<and> 0 \<le> s"
proof (induction vs)
  case Nil
  then show ?case by (simp add: pf_sum_def)
next
  case (Cons v vs)
  then obtain s where "pf_sum vs = Fin s" "0 \<le> s" by auto
  moreover from Cons.prems obtain x where "v = Fin x" "0 \<le> x"
    by (cases v) (auto simp: nonneg_or_nan_def)
  ultimately show ?case by (simp add: pf_sum_def)
qed

lemma pf_mean_nonneg:
  assumes "list_all nonneg_or_nan vs" and "NaN \<notin> set vs" and "vs \<noteq> []"
  shows "nonneg_or_nan (pf_mean vs)"
proof -
  from pf_sum_nonneg [OF assms(1,2)] obtain s where "pf_sum vs = Fin s" "0 \<le> s" by blast
  with assms(3) show ?thesis
    by (simp add: pf_mean_def nonneg_or_nan_def)
qed

lemma rolling_mean_nonneg:
  assumes "list_all nonneg_or_nan xs" and "i < length xs"
  shows "nonneg_or_nan (rolling p pf_mean xs ! i)"
proof (cases "p = 0 \<or> Suc i < p \<or> NaN \<in> set (window_ending p i xs)")
  case True
  with assms(2) show ?thesis by (simp add: nth_rolling nonneg_or_nan_def)
next
  case False
  have "list_all nonneg_or_nan (window_ending p i xs)"
    using assms(1) window_subset [of p i xs] by (auto simp: list_all_iff)
  moreover from False assms(2) have "window_ending p i xs \<noteq> []" by (simp add: window_nonempty)
  ultimately have "nonneg_or_nan (pf_mean (window_ending p i xs))"
    using False by (simp add: pf_mean_nonneg)
  with False assms(2) show ?thesis by (simp add: nth_rolling)
qed

lemma supertrend_atr_nonneg:
  assumes "i < length df" and "\<forall>b \<in> set df. Low b \<le> High b"
  shows "nonneg_or_nan (supertrend_atr df p ! i)"
proof -
  let ?w = "map2 pf_sub (rolling p pf_max_list (map (\<lambda>b. Fin (High b)) df))
                        (rolling p pf_min_list (map (\<lambda>b. Fin (Low b)) df))"
  have len: "length ?w = length df" by (simp add: length_rolling)
  have "list_all nonneg_or_nan ?w"
    unfolding list_all_length
  proof (intro allI impI)
    fix j assume "j < length ?w"
    with len have j: "j < length df" by simp
    then have "?w ! j = pf_sub (rolling p pf_max_list (map (\<lambda>b. Fin (High b)) df) ! j)
                              (rolling p pf_min_list (map (\<lambda>b. Fin (Low b)) df) ! j)"
      by (simp add: length_rolling)
    with band_width_nonneg [OF j assms(2)] show "nonneg_or_nan (?w ! j)" by simp
  qed
  with assms(1) len show ?thesis
    unfolding supertrend_atr_def by (simp add: rolling_mean_nonneg)
qed

lemma bands_do_not_cross:
  assumes "0 \<le> m" and "nonneg_or_nan a"
  shows "\<not> (pf_less (pf_add (Fin h) (pf_mul (Fin m) a)) (Fin c)
           \<and> pf_less (Fin c) (pf_sub (Fin h) (pf_mul (Fin m) a)))"
proof (cases a)
  case (Fin x)
  with assms have "0 \<le> m * x" by (simp add: nonneg_or_nan_def)
  with Fin show ?thesis by (auto simp: pf_sub_def)
qed (use assms in \<open>simp_all add: nonneg_or_nan_def pf_sub_def\<close>)

lemma length_bands:
  "length (upper_band df p m) = length df" "length (lower_band df p m) = length df"
  by (simp_all add: upper_band_def lower_band_def hl2_def supertrend_atr_def length_rolling)

lemma supertrend_bands_exclusive:
  assumes "i < length df" and "\<forall>b \<in> set df. Low b \<le> High b" and "0 \<le> m"
  shows "\<not> (pf_less (upper_band df p m ! i) (Fin c) \<and> pf_less (Fin c) (lower_band df p m ! i))"
proof -
  have la: "length (supertrend_atr df p) = length df"
    by (simp add: supertrend_atr_def length_rolling)
  from assms(1) la have
    "upper_band df p m ! i = pf_add (Fin (hl2 df ! i)) (pf_mul (Fin m) (supertrend_atr df p ! i))"
    "lower_band df p m ! i = pf_sub (Fin (hl2 df ! i)) (pf_mul (Fin m) (supertrend_atr df p ! i))"
    by (simp_all add: upper_band_def lower_band_def hl2_def)
  with bands_do_not_cross [OF assms(3) supertrend_atr_nonneg [OF assms(1,2)]]
  show ?thesis by simp
qed

lemma supertrend_outputs:
  "fst (supertrend df p m) = map (line_at df p m) [0..<length df]"
  "snd (supertrend df p m) = map (direction_at df p m) [0..<length df]"
  by (simp_all add: supertrend_closed_form)

text \<open>
  C6: for bars with \<open>Low \<le> High\<close> and a multiplier that is not negative (the default is
  3), \<open>supertrend\<close> emits one line value and one direction per bar. At bar 0 the
  direction is +1 and the line is hl2. At every later bar the direction is \<open>-1\<close> when the
  close is below the previous bar's lower band, +1 when the close is above the previous
  bar's upper band, and the previous direction otherwise; the line is the lower band
  when the direction is +1 and the upper band when it is \<open>-1\<close>. Every direction is +1 or
  \<open>-1\<close>. (A band inside the warm-up window is NaN and compares false, so the state is
  held there.)
\<close>

theorem supertrend_recurrence:
  assumes "0 \<le> multiplier" and "\<forall>b \<in> set df. Low b \<le> High b"
  shows "length (fst (supertrend df period multiplier)) = length df
       \<and> length (snd (supertrend df period multiplier)) = length df
       \<and> (df \<noteq> [] \<longrightarrow> snd (supertrend df period multiplier) ! 0 = 1
                      \<and> fst (supertrend df period multiplier) ! 0 = Fin (hl2 df ! 0))
       \<and> (\<forall>i. Suc i < length df \<longrightarrow>
             (pf_less (Fin (Close (df ! Suc i))) (lower_band df period multiplier ! i)
                \<longrightarrow> snd (supertrend df period multiplier) ! Suc i = - 1)
           \<and> (pf_less (upper_band df period multiplier ! i) (Fin (Close (df ! Suc i)))
                \<longrightarrow> snd (supertrend df period multiplier) ! Suc i = 1)
           \<and> (\<not> pf_less (Fin (Close (df ! Suc i))) (lower_band df period multiplier ! i)
              \<and> \<not> pf_less (upper_band df period multiplier ! i) (Fin (Close (df ! Suc i)))
                \<longrightarrow> snd (supertrend df period multiplier) ! Suc i
                      = snd (supertrend df period multiplier) ! i)
           \<and> (snd (supertrend df period multiplier) ! Suc i = 1
                \<longrightarrow> fst (supertrend df period multiplier) ! Suc i
                      = lower_band df period multiplier ! Suc i)
           \<and> (snd (supertrend df period multiplier) ! Suc i = - 1
                \<longrightarrow> fst (supertrend df period multiplier) ! Suc i
                      = upper_band df period multiplier ! Suc i))
       \<and> (\<forall>i < length df. snd (supertrend df period multiplier) ! i = 1
                           \<or> snd (supertrend df period multiplier) ! i = - 1)"
proof (intro conjI allI impI)
  show "length (fst (supertrend df period multiplier)) = length df"
    and "length (snd (supertrend df period multiplier)) = length df"
    by (simp_all add: supertrend_outputs)
next
  assume "df \<noteq> []"
  then have "0 < length df" by simp
  then show "snd (supertrend df period multiplier) ! 0 = 1"
    and "fst (supertrend df period multiplier) ! 0 = Fin (hl2 df ! 0)"
    by (simp_all add: supertrend_outputs direction_at_def line_at_def)
next
  fix i assume i: "Suc i < length df"
  then have i': "i < length df" by simp
  note ex = supertrend_bands_exclusive [OF i' assms(2,1), of period "Close (df ! Suc i)"]
  have d: "snd (supertrend df period multiplier) ! Suc i = direction_at df period multiplier (Suc i)"
    "snd (supertrend df period multiplier) ! i = direction_at df period multiplier i"
    "fst (supertrend df period multiplier) ! Suc i = line_at df period multiplier (Suc i)"
    using i by (simp_all add: supertrend_outputs)
  {
    assume "pf_less (Fin (Close (df ! Suc i))) (lower_band df period multiplier ! i)"
    with ex show "snd (supertrend df period multiplier) ! Suc i = - 1"
      by (simp add: d direction_at_def)
  next
    assume "pf_less (upper_band df period multiplier ! i) (Fin (Close (df ! Suc i)))"
    then show "snd (supertrend df period multiplier) ! Suc i = 1"
      by (simp add: d direction_at_def)
  next
    assume "\<not> pf_less (Fin (Close (df ! Suc i))) (lower_band df period multiplier ! i)
              \<and> \<not> pf_less (upper_band df period multiplier ! i) (Fin (Close (df ! Suc i)))"
    then show "snd (supertrend df period multiplier) ! Suc i
                 = snd (supertrend df period multiplier) ! i"
      by (simp add: d direction_at_def)
  next
    assume "snd (supertrend df period multiplier) ! Suc i = 1"
    then show "fst (supertrend df period multiplier) ! Suc i
                 = lower_band df period multiplier ! Suc i"
      by (simp add: d direction_at_def line_at_def split: if_splits)
  next
    assume "snd (supertrend df period multiplier) ! Suc i = - 1"
    then show "fst (supertrend df period multiplier) ! Suc i
                 = upper_band df period multiplier ! Suc i"
      by (simp add: d direction_at_def line_at_def split: if_splits)
  }
next
  fix i assume "i < length df"
  then show "snd (supertrend df period multiplier) ! i = 1
               \<or> snd (supertrend df period multiplier) ! i = - 1"
    by (simp add: supertrend_outputs direction_at_def)
qed

lemma three_bars_atr: "supertrend_atr three_bars 1 = [Fin 2, Fin 4, Fin 3]"
  by (simp add: three_bars_def supertrend_atr_def rolling_def window_ending_def pf_mean_def
      pf_sum_def pf_sub_def upt_conv_Cons)

lemma three_bars_hl2: "hl2 three_bars = [10, 7, 23/2]"
  by (simp add: three_bars_def hl2_def)

lemma three_bars_bands:
  "lower_band three_bars 1 1 ! 0 = Fin 8 \<and> upper_band three_bars 1 1 ! 1 = Fin 11"
  unfolding lower_band_def upper_band_def three_bars_atr three_bars_hl2
  by (simp add: pf_sub_def)

theorem supertrend_recurrence_witness:
  "(0::real) \<le> 1
   \<and> list_all (\<lambda>b. Low b \<le> High b) three_bars
   \<and> Close (three_bars ! 1) = 6 \<and> lower_band three_bars 1 1 ! 0 = Fin 8
   \<and> snd (supertrend three_bars 1 1) ! 0 = 1
   \<and> snd (supertrend three_bars 1 1) ! 1 = - 1
   \<and> fst (supertrend three_bars 1 1) ! 1 = Fin 11"
proof -
  have m: "(0::real) \<le> 1" by simp
  have wf: "\<forall>b \<in> set three_bars. Low b \<le> High b" by (simp add: three_bars_def)
  have c: "Close (three_bars ! 1) = 6" and n: "Suc 0 < length three_bars" "three_bars \<noteq> []"
    by (simp_all add: three_bars_def)
  note t = supertrend_recurrence [OF m wf, of 1]
  from t n have d0: "snd (supertrend three_bars 1 1) ! 0 = 1" by blast
  from c three_bars_bands
  have "pf_less (Fin (Close (three_bars ! Suc 0))) (lower_band three_bars 1 1 ! 0)" by simp
  with t n have d1: "snd (supertrend three_bars 1 1) ! Suc 0 = - 1" by blast
  with t n have "fst (supertrend three_bars 1 1) ! Suc 0 = upper_band three_bars 1 1 ! Suc 0"
    by blast
  with three_bars_bands have l1: "fst (supertrend three_bars 1 1) ! 1 = Fin 11" by simp
  from d1 have d1': "snd (supertrend three_bars 1 1) ! 1 = - 1" by simp
  from wf have "list_all (\<lambda>b. Low b \<le> High b) three_bars" by (simp add: list_all_iff)
  with m c three_bars_bands d0 d1' l1 show ?thesis by blast
qed

section \<open>Missing fields: which filters fail open and which fail closed\<close>






lemma technical_screen_cases:
  "technical_screen self c = []
   \<or> technical_screen self c
       = py_sort_reverse (<) tr_technical_score
           (List.map_filter (pick (technical_body self (technical_defaults c))) (stock_universe self))"
proof (cases "for_each (technical_body self (technical_defaults c)) (stock_universe self)")
  case (Inl e)
  then show ?thesis by (simp add: technical_screen_def)
next
  case (Inr rows)
  then show ?thesis by (simp add: technical_screen_def for_each_Inr [OF Inr])
qed

lemma pick_technical_row:
  "pick (technical_body self sc) s = Some r \<Longrightarrow>
     tr_symbol r = s
     \<and> (\<exists>sd t. cached self s = Some sd \<and> sd_technical sd = Some t \<and> \<not> technical_rejects sc t)"
  by (auto simp: pick_def technical_body_def tech_row_of_def
      split: option.splits sum.splits if_splits)









section \<open>Sorting by float keys\<close>

lemma mset_insort_lt: "mset (insort_lt lt key x xs) = add_mset x (mset xs)"
  by (induction xs) simp_all

lemma mset_py_sort: "mset (py_sort lt key xs) = mset xs"
  by (induction xs) (simp_all add: py_sort_def mset_insort_lt)

lemma mset_py_sort_reverse: "mset (py_sort_reverse lt key xs) = mset xs"
  by (simp add: py_sort_reverse_def mset_py_sort)

lemma pf_less_imp_le: "pf_less a b \<Longrightarrow> pf_le a b"
  by (cases a; cases b) simp_all

lemma pf_not_less_imp_le: "a \<noteq> NaN \<Longrightarrow> b \<noteq> NaN \<Longrightarrow> \<not> pf_less b a \<Longrightarrow> pf_le a b"
  by (cases a; cases b) simp_all

lemma pf_le_trans: "pf_le a b \<Longrightarrow> pf_le b c \<Longrightarrow> pf_le a c"
  by (cases a; cases b; cases c) simp_all

lemma sorted_insort_pf:
  assumes "key x \<noteq> NaN" and "\<forall>y \<in> set ys. key y \<noteq> NaN"
    and "sorted_wrt (\<lambda>a b. pf_le (key a) (key b)) ys"
  shows "sorted_wrt (\<lambda>a b. pf_le (key a) (key b)) (insort_lt pf_less key x ys)"
  using assms
proof (induction ys)
  case Nil
  then show ?case by simp
next
  case (Cons y ys)
  show ?case
  proof (cases "pf_less (key y) (key x)")
    case True
    with Cons show ?thesis
      by (auto simp: set_insort_lt pf_less_imp_le)
  next
    case False
    with Cons.prems have xy: "pf_le (key x) (key y)"
      by (simp add: pf_not_less_imp_le)
    with Cons.prems have "\<forall>z \<in> set ys. pf_le (key x) (key z)"
      by (auto intro: pf_le_trans)
    with False xy Cons.prems show ?thesis by simp
  qed
qed

lemma sorted_py_sort_pf:
  "\<forall>x \<in> set xs. key x \<noteq> NaN \<Longrightarrow>
   sorted_wrt (\<lambda>a b. pf_le (key a) (key b)) (py_sort pf_less key xs)"
proof (induction xs)
  case Nil
  then show ?case by (simp add: py_sort_def)
next
  case (Cons x xs)
  then have "sorted_wrt (\<lambda>a b. pf_le (key a) (key b)) (py_sort pf_less key xs)" by simp
  with Cons.prems
  have "sorted_wrt (\<lambda>a b. pf_le (key a) (key b)) (insort_lt pf_less key x (py_sort pf_less key xs))"
    by (intro sorted_insort_pf) (simp_all add: set_py_sort)
  then show ?case by (simp add: py_sort_def)
qed

lemma sorted_py_sort_reverse_pf:
  assumes "\<forall>x \<in> set xs. key x \<noteq> NaN"
  shows "sorted_wrt (\<lambda>a b. pf_le (key b) (key a)) (py_sort_reverse pf_less key xs)"
proof -
  from assms have "sorted_wrt (\<lambda>a b. pf_le (key a) (key b)) (py_sort pf_less key (rev xs))"
    by (intro sorted_py_sort_pf) simp
  then show ?thesis
    by (simp add: py_sort_reverse_def sorted_wrt_rev)
qed


section \<open>The RSI screen returns the top 20 matches\<close>

lemma rsi_body_total:
  "rsi_body self condition low high symbol = Inr (pick (rsi_body self condition low high) symbol)"
  by (simp add: pick_def rsi_body_def split: option.splits)

lemma rsi_loop_rows:
  "for_each (rsi_body self (or_default ''oversold'' (rsi_condition c))
        (or_default 30 (rsi_low c)) (or_default 70 (rsi_high c))) (stock_universe self)
     = Inr (rsi_matching_rows self c)"
proof -
  let ?body = "rsi_body self (or_default ''oversold'' (rsi_condition c))
        (or_default 30 (rsi_low c)) (or_default 70 (rsi_high c))"
  have "for_each ?body (stock_universe self)
          = Inr (concat (map (\<lambda>x. case pick ?body x of None \<Rightarrow> [] | Some r \<Rightarrow> [r])
                             (stock_universe self)))"
    by (rule for_each_total) (rule rsi_body_total)
  moreover have "(\<lambda>x. case pick ?body x of None \<Rightarrow> [] | Some r \<Rightarrow> [r])
      = (\<lambda>symbol.
        case cached self symbol of
          None \<Rightarrow> []
        | Some stock_data \<Rightarrow>
            (case sd_technical stock_data of
               None \<Rightarrow> []
             | Some technical_data \<Rightarrow>
                 (case td_rsi technical_data of
                    None \<Rightarrow> []
                  | Some current_rsi \<Rightarrow>
                      if rsi_matches (or_default ''oversold'' (rsi_condition c))
                           (or_default 30 (rsi_low c)) (or_default 70 (rsi_high c))
                           current_rsi
                      then [rsi_row_of (or_default ''oversold'' (rsi_condition c)) symbol
                              technical_data current_rsi]
                      else [])))"
    by (rule ext) (simp add: pick_def rsi_body_def rsi_row_of_def split: option.splits)
  ultimately show ?thesis by (simp only: rsi_matching_rows_def)
qed

lemma rsi_matching_symbols: "map rr_symbol (rsi_matching_rows self c) = rsi_qualifying self c"
proof -
  have "map rr_symbol (concat (map (\<lambda>symbol.
        case cached self symbol of
          None \<Rightarrow> []
        | Some stock_data \<Rightarrow>
            (case sd_technical stock_data of
               None \<Rightarrow> []
             | Some technical_data \<Rightarrow>
                 (case td_rsi technical_data of
                    None \<Rightarrow> []
                  | Some current_rsi \<Rightarrow>
                      if rsi_matches cond lo hi current_rsi
                      then [rsi_row_of cond symbol technical_data current_rsi]
                      else []))) xs))
     = filter (\<lambda>symbol.
        case cached self symbol of
          None \<Rightarrow> False
        | Some stock_data \<Rightarrow>
            (case sd_technical stock_data of
               None \<Rightarrow> False
             | Some technical_data \<Rightarrow>
                 (case td_rsi technical_data of
                    None \<Rightarrow> False
                  | Some current_rsi \<Rightarrow> rsi_matches cond lo hi current_rsi))) xs"
    for cond lo hi xs
    by (induction xs) (simp_all add: rsi_row_of_def split: option.splits)
  then show ?thesis
    by (simp only: rsi_matching_rows_def rsi_qualifying_def)
qed

lemma rsi_matches_not_nan: "rsi_matches cond lo hi x \<Longrightarrow> x \<noteq> NaN"
  by (auto simp: rsi_matches_def split: if_splits)

lemma round2_not_nan: "x \<noteq> NaN \<Longrightarrow> round2 x \<noteq> NaN"
  by (cases x) simp_all

lemma rsi_score_not_nan:
  "x \<noteq> NaN \<Longrightarrow> pf_sub (Fin 100) (pf_abs (pf_sub x (Fin 50))) \<noteq> NaN"
  by (cases x) (simp_all add: pf_sub_def)

lemma rsi_matching_row:
  assumes "r \<in> set (rsi_matching_rows self c)"
  shows "\<exists>sd t x. cached self (rr_symbol r) = Some sd \<and> sd_technical sd = Some t
           \<and> td_rsi t = Some x
           \<and> rsi_matches (or_default ''oversold'' (rsi_condition c))
                (or_default 30 (rsi_low c)) (or_default 70 (rsi_high c)) x
           \<and> r = rsi_row_of (or_default ''oversold'' (rsi_condition c)) (rr_symbol r) t x"
proof -
  from assms obtain s sd t x where
    "cached self s = Some sd" "sd_technical sd = Some t" "td_rsi t = Some x"
    "rsi_matches (or_default ''oversold'' (rsi_condition c))
        (or_default 30 (rsi_low c)) (or_default 70 (rsi_high c)) x"
    "r = rsi_row_of (or_default ''oversold'' (rsi_condition c)) s t x"
    unfolding rsi_matching_rows_def
    by (auto split: option.splits if_splits) metis
  moreover from this have "rr_symbol r = s" by (simp add: rsi_row_of_def)
  ultimately have "cached self (rr_symbol r) = Some sd \<and> sd_technical sd = Some t
           \<and> td_rsi t = Some x
           \<and> rsi_matches (or_default ''oversold'' (rsi_condition c))
                (or_default 30 (rsi_low c)) (or_default 70 (rsi_high c)) x
           \<and> r = rsi_row_of (or_default ''oversold'' (rsi_condition c)) (rr_symbol r) t x"
    by simp
  then show ?thesis by (intro exI)
qed

lemma rsi_matching_keys:
  assumes "r \<in> set (rsi_matching_rows self c)"
  shows "rr_rsi r \<noteq> NaN" and "rr_score r \<noteq> NaN"
proof -
  from rsi_matching_row [OF assms] obtain t x where
    x: "rsi_matches (or_default ''oversold'' (rsi_condition c))
          (or_default 30 (rsi_low c)) (or_default 70 (rsi_high c)) x"
    and r: "r = rsi_row_of (or_default ''oversold'' (rsi_condition c)) (rr_symbol r) t x"
    by blast
  from x have nn: "x \<noteq> NaN" by (rule rsi_matches_not_nan)
  have "rr_rsi r = round2 x" and "rr_score r = pf_sub (Fin 100) (pf_abs (pf_sub x (Fin 50)))"
    by (subst r, simp add: rsi_row_of_def)+
  with nn show "rr_rsi r \<noteq> NaN" and "rr_score r \<noteq> NaN"
    by (simp_all add: round2_not_nan rsi_score_not_nan)
qed

lemma rsi_screen_sorted_matches:
  "\<exists>sorted_matches.
      rsi_screen self c = take 20 sorted_matches
    \<and> mset sorted_matches = mset (rsi_matching_rows self c)
    \<and> sorted_wrt (rsi_order (or_default ''oversold'' (rsi_condition c))) sorted_matches"
proof -
  let ?cond = "or_default ''oversold'' (rsi_condition c)"
  let ?rows = "rsi_matching_rows self c"
  let ?S = "if ?cond = ''oversold'' then py_sort pf_less rr_rsi ?rows
            else if ?cond = ''overbought'' then py_sort_reverse pf_less rr_rsi ?rows
            else py_sort_reverse pf_less rr_score ?rows"
  have k: "\<forall>r \<in> set ?rows. rr_rsi r \<noteq> NaN" "\<forall>r \<in> set ?rows. rr_score r \<noteq> NaN"
    using rsi_matching_keys by blast+
  have "rsi_screen self c = take 20 ?S"
    by (simp add: rsi_screen_def Let_def rsi_loop_rows)
  moreover have "mset ?S = mset ?rows"
    by (simp add: mset_py_sort mset_py_sort_reverse)
  moreover have "sorted_wrt (rsi_order ?cond) ?S"
  proof (cases "?cond = ''oversold''")
    case True
    then have "rsi_order ?cond = (\<lambda>a b. pf_le (rr_rsi a) (rr_rsi b))"
      by (intro ext) (simp add: rsi_order_def)
    with True sorted_py_sort_pf [OF k(1)] show ?thesis by simp
  next
    case False
    show ?thesis
    proof (cases "?cond = ''overbought''")
      case True
      with False have "rsi_order ?cond = (\<lambda>a b. pf_le (rr_rsi b) (rr_rsi a))"
        by (intro ext) (simp add: rsi_order_def)
      with True False sorted_py_sort_reverse_pf [OF k(1)] show ?thesis by simp
    next
      case F2: False
      with False have "rsi_order ?cond = (\<lambda>a b. pf_le (rr_score b) (rr_score a))"
        by (intro ext) (simp add: rsi_order_def)
      with F2 False sorted_py_sort_reverse_pf [OF k(2)] show ?thesis by simp
    qed
  qed
  ultimately show ?thesis by blast
qed


lemma rsi_screen_rows_are_matches:
  assumes "r \<in> set (rsi_screen self c)"
  shows "r \<in> set (rsi_matching_rows self c)"
proof -
  from rsi_screen_sorted_matches [of self c] obtain S where
    S: "rsi_screen self c = take 20 S" "mset S = mset (rsi_matching_rows self c)"
    by blast
  from assms S(1) have "r \<in> set S" by (auto dest: in_set_takeD)
  with S(2) show ?thesis by (metis set_mset_mset)
qed

text \<open>
  C10: \<open>rsi_screen\<close> returns the top 20 matches. The matches are the rows of the
  qualifying symbols; the result is the first 20 rows of a list that holds every match
  once and is sorted by the ranking of the condition. So the result has at most 20 rows,
  exactly 20 when more than 20 symbols qualify, and the matches that rank after the
  twentieth are dropped. Every returned row reports its symbol's latest price, its RSI
  rounded to two decimals, the condition and the score \<open>100 - |RSI - 50|\<close>.
\<close>

theorem rsi_screen_top_20:
  "length (rsi_screen self criteria) \<le> 20
   \<and> length (rsi_screen self criteria) = min 20 (length (rsi_qualifying self criteria))
   \<and> map rr_symbol (rsi_matching_rows self criteria) = rsi_qualifying self criteria
   \<and> (\<exists>sorted_matches.
          rsi_screen self criteria = take 20 sorted_matches
        \<and> mset sorted_matches = mset (rsi_matching_rows self criteria)
        \<and> sorted_wrt (rsi_order (or_default ''oversold'' (rsi_condition criteria))) sorted_matches)
   \<and> (\<forall>r \<in> set (rsi_screen self criteria).
         \<exists>sd t x. cached self (rr_symbol r) = Some sd \<and> sd_technical sd = Some t
           \<and> td_rsi t = Some x
           \<and> rsi_matches (or_default ''oversold'' (rsi_condition criteria))
                (or_default 30 (rsi_low criteria)) (or_default 70 (rsi_high criteria)) x
           \<and> rr_current_price r = td_close t
           \<and> rr_rsi r = round2 x
           \<and> rr_signal r = or_default ''oversold'' (rsi_condition criteria)
           \<and> rr_score r = pf_sub (Fin 100) (pf_abs (pf_sub x (Fin 50))))"
proof -
  from rsi_screen_sorted_matches [of self criteria] obtain S where
    S: "rsi_screen self criteria = take 20 S"
       "mset S = mset (rsi_matching_rows self criteria)"
       "sorted_wrt (rsi_order (or_default ''oversold'' (rsi_condition criteria))) S"
    by blast
  have sym: "map rr_symbol (rsi_matching_rows self criteria) = rsi_qualifying self criteria"
    by (rule rsi_matching_symbols)
  from S(2) have "length S = length (rsi_matching_rows self criteria)"
    by (metis size_mset)
  also have "\<dots> = length (rsi_qualifying self criteria)"
    by (metis sym length_map)
  finally have len: "length (rsi_screen self criteria) = min 20 (length (rsi_qualifying self criteria))"
    by (simp add: S(1) min.commute)
  have rows: "\<forall>r \<in> set (rsi_screen self criteria).
         \<exists>sd t x. cached self (rr_symbol r) = Some sd \<and> sd_technical sd = Some t
           \<and> td_rsi t = Some x
           \<and> rsi_matches (or_default ''oversold'' (rsi_condition criteria))
                (or_default 30 (rsi_low criteria)) (or_default 70 (rsi_high criteria)) x
           \<and> rr_current_price r = td_close t
           \<and> rr_rsi r = round2 x
           \<and> rr_signal r = or_default ''oversold'' (rsi_condition criteria)
           \<and> rr_score r = pf_sub (Fin 100) (pf_abs (pf_sub x (Fin 50)))"
  proof
    fix r assume "r \<in> set (rsi_screen self criteria)"
    then have "r \<in> set (rsi_matching_rows self criteria)" by (rule rsi_screen_rows_are_matches)
    from rsi_matching_row [OF this] obtain sd t x where
      a: "cached self (rr_symbol r) = Some sd" "sd_technical sd = Some t" "td_rsi t = Some x"
         "rsi_matches (or_default ''oversold'' (rsi_condition criteria))
            (or_default 30 (rsi_low criteria)) (or_default 70 (rsi_high criteria)) x"
      and r: "r = rsi_row_of (or_default ''oversold'' (rsi_condition criteria)) (rr_symbol r) t x"
      by blast
    have "rr_current_price r = td_close t" "rr_rsi r = round2 x"
      "rr_signal r = or_default ''oversold'' (rsi_condition criteria)"
      "rr_score r = pf_sub (Fin 100) (pf_abs (pf_sub x (Fin 50)))"
      by (subst r, simp add: rsi_row_of_def)+
    with a show "\<exists>sd t x. cached self (rr_symbol r) = Some sd \<and> sd_technical sd = Some t
           \<and> td_rsi t = Some x
           \<and> rsi_matches (or_default ''oversold'' (rsi_condition criteria))
                (or_default 30 (rsi_low criteria)) (or_default 70 (rsi_high criteria)) x
           \<and> rr_current_price r = td_close t
           \<and> rr_rsi r = round2 x
           \<and> rr_signal r = or_default ''oversold'' (rsi_condition criteria)
           \<and> rr_score r = pf_sub (Fin 100) (pf_abs (pf_sub x (Fin 50)))"
      by blast
  qed
  from len have "length (rsi_screen self criteria) \<le> 20" by simp
  with len sym S rows show ?thesis by blast
qed

lemma all_oversold_qualifying: "length (rsi_qualifying all_oversold no_rsi_criteria) = 52"
  by (simp add: rsi_qualifying_def all_oversold_def no_rsi_criteria_def INDIAN_STOCKS_def
      example_stock_def bullish_technicals_def or_default_def rsi_matches_def)

lemma two_oversold_qualifying:
  "rsi_qualifying two_oversold no_rsi_criteria = [''RELIANCE'', ''TCS'']"
  by (simp add: rsi_qualifying_def two_oversold_def screener_with_def no_rsi_criteria_def
      INDIAN_STOCKS_def example_stock_def bullish_technicals_def or_default_def rsi_matches_def)

lemma two_oversold_result:
  "map (\<lambda>r. (rr_symbol r, rr_rsi r, rr_score r)) (rsi_screen two_oversold no_rsi_criteria)
     = [(''TCS'', Fin 20, Fin 70), (''RELIANCE'', Fin 25, Fin 75)]"
  by (simp add: rsi_screen_def rsi_body_def two_oversold_def screener_with_def
      no_rsi_criteria_def INDIAN_STOCKS_def example_stock_def bullish_technicals_def
      or_default_def rsi_matches_def py_sort_def rint_def pf_sub_def Let_def)

text \<open>
  On the real universe: with RELIANCE at RSI 25 and TCS at RSI 20 both qualify as oversold
  and TCS, with the lower RSI, is listed first; with all 52 symbols oversold, 52 qualify
  and 20 rows are returned.
\<close>

theorem rsi_screen_top_20_witness:
  "rsi_qualifying two_oversold no_rsi_criteria = [''RELIANCE'', ''TCS'']
   \<and> length (rsi_screen two_oversold no_rsi_criteria) = 2
   \<and> map rr_symbol (rsi_screen two_oversold no_rsi_criteria) = [''TCS'', ''RELIANCE'']
   \<and> length (rsi_qualifying all_oversold no_rsi_criteria) = 52
   \<and> length (rsi_screen all_oversold no_rsi_criteria) = 20"
proof -
  have "map rr_symbol (rsi_screen two_oversold no_rsi_criteria)
          = map fst (map (\<lambda>r. (rr_symbol r, rr_rsi r, rr_score r))
                         (rsi_screen two_oversold no_rsi_criteria))"
    by (simp add: comp_def)
  then have m: "map rr_symbol (rsi_screen two_oversold no_rsi_criteria) = [''TCS'', ''RELIANCE'']"
    by (simp only: two_oversold_result) simp
  from rsi_screen_top_20 [of two_oversold no_rsi_criteria] two_oversold_qualifying
  have "length (rsi_screen two_oversold no_rsi_criteria) = 2" by simp
  moreover from rsi_screen_top_20 [of all_oversold no_rsi_criteria] all_oversold_qualifying
  have "length (rsi_screen all_oversold no_rsi_criteria) = 20" by simp
  ultimately show ?thesis using m two_oversold_qualifying all_oversold_qualifying by simp
qed


section \<open>The order of the results\<close>

lemma ties_keep_loop_order:
  fixes key :: "'r \<Rightarrow> real"
  assumes "\<And>x r. g x = Some r \<Longrightarrow> h r = x"
  shows "subseq (map h (filter (\<lambda>r. key r = k) (py_sort_reverse (<) key (List.map_filter g xs)))) xs"
proof -
  have "filter (\<lambda>r. key r = k) (py_sort_reverse (<) key (List.map_filter g xs))
          = filter (\<lambda>r. key r = k) (List.map_filter g xs)"
    by (rule py_sort_reverse_stable)
  moreover have "subseq (map h (filter (\<lambda>r. key r = k) (List.map_filter g xs)))
                        (map h (List.map_filter g xs))"
    by (rule subseq_map) simp
  moreover have "map h (List.map_filter g xs) = filter (\<lambda>x. g x \<noteq> None) xs"
    using assms by (rule map_of_map_filter)
  moreover have "subseq (filter (\<lambda>x. g x \<noteq> None) xs) xs"
    by simp
  ultimately show ?thesis
    by (metis subseq_order.trans)
qed

text \<open>The insertion sort is stable for every comparison that is irreflexive.\<close>

lemma filter_insort_lt:
  assumes "\<And>a. \<not> lt a a"
  shows "filter (\<lambda>y. key y = k) (insort_lt lt key x xs)
           = (if key x = k then x # filter (\<lambda>y. key y = k) xs else filter (\<lambda>y. key y = k) xs)"
  using assms by (induction xs) auto

lemma py_sort_stable:
  assumes "\<And>a. \<not> lt a a"
  shows "filter (\<lambda>y. key y = k) (py_sort lt key xs) = filter (\<lambda>y. key y = k) xs"
  by (induction xs) (simp_all add: py_sort_def filter_insort_lt [OF assms])

lemma py_sort_reverse_stable_irrefl:
  assumes "\<And>a. \<not> lt a a"
  shows "filter (\<lambda>y. key y = k) (py_sort_reverse lt key xs) = filter (\<lambda>y. key y = k) xs"
proof -
  have "filter (\<lambda>y. key y = k) (py_sort lt key (rev xs)) = filter (\<lambda>y. key y = k) (rev xs)"
    by (rule py_sort_stable [OF assms])
  then have "rev (filter (\<lambda>y. key y = k) (py_sort lt key (rev xs)))
               = rev (filter (\<lambda>y. key y = k) (rev xs))"
    by simp
  then show ?thesis by (simp add: py_sort_reverse_def rev_filter)
qed

lemma pf_less_irrefl: "\<not> pf_less a a"
  by (cases a) simp_all

lemma sorted_wrt_take: "sorted_wrt P xs \<Longrightarrow> sorted_wrt P (take n xs)"
  by (metis append_take_drop_id sorted_wrt_append)

lemma rsi_screen_eq:
  "rsi_screen self c
     = take 20
         (if or_default ''oversold'' (rsi_condition c) = ''oversold''
          then py_sort pf_less rr_rsi (rsi_matching_rows self c)
          else if or_default ''oversold'' (rsi_condition c) = ''overbought''
          then py_sort_reverse pf_less rr_rsi (rsi_matching_rows self c)
          else py_sort_reverse pf_less rr_score (rsi_matching_rows self c))"
  by (simp add: rsi_screen_def Let_def rsi_loop_rows)

lemma rsi_screen_sorted:
  "sorted_wrt (rsi_order (or_default ''oversold'' (rsi_condition c))) (rsi_screen self c)"
  using rsi_screen_sorted_matches [of self c] by (auto intro: sorted_wrt_take)

lemma rsi_screen_ties:
  "subseq (map rr_symbol
             (filter (\<lambda>r. rsi_sort_key (or_default ''oversold'' (rsi_condition c)) r = k)
                     (rsi_screen self c)))
          (stock_universe self)"
proof -
  define cond where "cond = or_default ''oversold'' (rsi_condition c)"
  define rows where "rows = rsi_matching_rows self c"
  define S where "S = (if cond = ''oversold'' then py_sort pf_less rr_rsi rows
          else if cond = ''overbought'' then py_sort_reverse pf_less rr_rsi rows
          else py_sort_reverse pf_less rr_score rows)"
  have e: "rsi_screen self c = take 20 S"
    unfolding S_def cond_def rows_def by (rule rsi_screen_eq)
  have st: "filter (\<lambda>r. rsi_sort_key cond r = k) S = filter (\<lambda>r. rsi_sort_key cond r = k) rows"
  proof (cases "cond = ''oversold''")
    case True
    then have key: "rsi_sort_key cond = rr_rsi" by (intro ext) (simp add: rsi_sort_key_def)
    from True have "S = py_sort pf_less rr_rsi rows" by (simp add: S_def)
    then show ?thesis
      unfolding key by (simp only: py_sort_stable [OF pf_less_irrefl])
  next
    case False
    show ?thesis
    proof (cases "cond = ''overbought''")
      case True
      then have key: "rsi_sort_key cond = rr_rsi" by (intro ext) (simp add: rsi_sort_key_def)
      from True False have "S = py_sort_reverse pf_less rr_rsi rows" by (simp add: S_def)
      then show ?thesis
        unfolding key by (simp only: py_sort_reverse_stable_irrefl [OF pf_less_irrefl])
    next
      case F2: False
      with False have key: "rsi_sort_key cond = rr_score"
        by (intro ext) (simp add: rsi_sort_key_def)
      from F2 False have "S = py_sort_reverse pf_less rr_score rows" by (simp add: S_def)
      then show ?thesis
        unfolding key by (simp only: py_sort_reverse_stable_irrefl [OF pf_less_irrefl])
    qed
  qed
  have "subseq (take 20 S) S" by (rule prefix_imp_subseq) (rule take_is_prefix)
  then have "subseq (filter (\<lambda>r. rsi_sort_key cond r = k) (take 20 S))
                    (filter (\<lambda>r. rsi_sort_key cond r = k) S)"
    by (rule subseq_filter)
  then have "subseq (filter (\<lambda>r. rsi_sort_key cond r = k) (rsi_screen self c))
                    (filter (\<lambda>r. rsi_sort_key cond r = k) rows)"
    by (simp only: e st)
  then have "subseq (map rr_symbol (filter (\<lambda>r. rsi_sort_key cond r = k) (rsi_screen self c)))
                    (map rr_symbol (filter (\<lambda>r. rsi_sort_key cond r = k) rows))"
    by (rule subseq_map)
  moreover have "subseq (map rr_symbol (filter (\<lambda>r. rsi_sort_key cond r = k) rows))
                        (map rr_symbol rows)"
    by (rule subseq_map) (rule subseq_filter_left)
  moreover have "subseq (map rr_symbol rows) (stock_universe self)"
    unfolding rows_def rsi_matching_symbols rsi_qualifying_def by (rule subseq_filter_left)
  ultimately have "subseq (map rr_symbol (filter (\<lambda>r. rsi_sort_key cond r = k) (rsi_screen self c)))
                          (stock_universe self)"
    by (meson subseq_order.trans)
  then show ?thesis by (simp only: cond_def)
qed

lemma two_equal_scores_result:
  "map (\<lambda>r. (fr_symbol r, fr_financial_score r))
       (fundamental_screen two_equal_scores no_fundamental_criteria)
     = [(''RELIANCE'', 100), (''HDFCBANK'', 100)]"
  by (simp add: example_defs fund_defs)

text \<open>
  C8 (counterexample): RELIANCE and HDFCBANK have the same data, hence the same score
  100. The fundamental screen lists RELIANCE before HDFCBANK, the order of the universe,
  although \<open>HDFCBANK\<close> is the smaller symbol in lexical order. And not every scan is sorted
  by falling score: the RSI screen with the default condition \<open>oversold\<close> lists TCS (RSI
  20, score 70) before RELIANCE (RSI 25, score 75).
\<close>

theorem equal_scores_keep_universe_order:
  "map (\<lambda>r. (fr_symbol r, fr_financial_score r))
       (fundamental_screen two_equal_scores no_fundamental_criteria)
     = [(''RELIANCE'', 100), (''HDFCBANK'', 100)]
   \<and> ''HDFCBANK'' < ''RELIANCE''
   \<and> map (\<lambda>r. (rr_symbol r, rr_rsi r, rr_score r)) (rsi_screen two_oversold no_rsi_criteria)
     = [(''TCS'', Fin 20, Fin 70), (''RELIANCE'', Fin 25, Fin 75)]
   \<and> pf_less (Fin 70) (Fin 75)"
proof -
  have "''HDFCBANK'' < ''RELIANCE''" by simp
  moreover have "pf_less (Fin 70) (Fin 75)" by simp
  ultimately show ?thesis using two_equal_scores_result two_oversold_result by blast
qed


text \<open>
  C8 (amended): the result of \<open>fundamental_screen\<close> is sorted by financial score, the
  result of \<open>technical_screen\<close> by technical score and the result of \<open>combined_screen\<close> by
  combined score, each in non-increasing order. The result of \<open>rsi_screen\<close> is sorted by
  the ranking of its condition: by rising RSI for \<open>oversold\<close>, by falling RSI for
  \<open>overbought\<close>, by falling score otherwise. Every sort is stable and has no second key:
  rows with equal sort key keep the order in which the loop produced them, which is the
  order of the universe (for \<open>combined_screen\<close>, the order of the result of
  \<open>fundamental_screen\<close>). The screens are functions of their inputs, so the order is
  deterministic.
\<close>

theorem results_sorted_ties_in_loop_order:
  "sorted (rev (map fr_financial_score (fundamental_screen self fc)))
   \<and> (\<forall>k. subseq (map fr_symbol (filter (\<lambda>r. fr_financial_score r = k) (fundamental_screen self fc)))
                  (stock_universe self))
   \<and> sorted (rev (map tr_technical_score (technical_screen self tc)))
   \<and> (\<forall>k. subseq (map tr_symbol (filter (\<lambda>r. tr_technical_score r = k) (technical_screen self tc)))
                  (stock_universe self))
   \<and> sorted (rev (map c_combined_score (combined_screen self fc tc weights)))
   \<and> (\<forall>k. subseq (map c_fund (filter (\<lambda>r. c_combined_score r = k)
                                          (combined_screen self fc tc weights)))
                  (fundamental_screen self fc))
   \<and> sorted_wrt (rsi_order (or_default ''oversold'' (rsi_condition rc))) (rsi_screen self rc)
   \<and> (\<forall>k. subseq (map rr_symbol
                     (filter (\<lambda>r. rsi_sort_key (or_default ''oversold'' (rsi_condition rc)) r = k)
                             (rsi_screen self rc)))
                  (stock_universe self))"
proof (intro conjI allI)
  show "sorted (rev (map fr_financial_score (fundamental_screen self fc)))"
    unfolding fundamental_screen_rows by (rule py_sort_reverse_descending)
  show "subseq (map fr_symbol (filter (\<lambda>r. fr_financial_score r = k) (fundamental_screen self fc)))
               (stock_universe self)" for k
    unfolding fundamental_screen_rows
    by (rule ties_keep_loop_order) (simp add: pick_fundamental_row)
  from technical_screen_cases [of self tc]
  show "sorted (rev (map tr_technical_score (technical_screen self tc)))"
    by (auto simp: py_sort_reverse_descending)
  from technical_screen_cases [of self tc]
  show "subseq (map tr_symbol (filter (\<lambda>r. tr_technical_score r = k) (technical_screen self tc)))
               (stock_universe self)" for k
  proof
    assume "technical_screen self tc = []"
    then show ?thesis by simp
  next
    assume e: "technical_screen self tc
       = py_sort_reverse (<) tr_technical_score
           (List.map_filter (pick (technical_body self (technical_defaults tc))) (stock_universe self))"
    show ?thesis
      unfolding e by (rule ties_keep_loop_order) (simp add: pick_technical_row)
  qed
  from combined_screen_cases [of self fc tc weights]
  show "sorted (rev (map c_combined_score (combined_screen self fc tc weights)))"
    by (auto simp: py_sort_reverse_descending)
  from combined_screen_cases [of self fc tc weights]
  show "subseq (map c_fund (filter (\<lambda>r. c_combined_score r = k)
                                   (combined_screen self fc tc weights)))
               (fundamental_screen self fc)" for k
  proof
    assume "combined_screen self fc tc weights = []"
    then show ?thesis by simp
  next
    assume e: "combined_screen self fc tc weights
       = py_sort_reverse (<) c_combined_score
           (List.map_filter
              (pick (combined_body (chosen_weights weights)
                       (technical_lookup_of (technical_screen self tc))))
              (fundamental_screen self fc))"
    show ?thesis
      unfolding e by (rule ties_keep_loop_order) (simp add: pick_combined_row)
  qed
  show "sorted_wrt (rsi_order (or_default ''oversold'' (rsi_condition rc))) (rsi_screen self rc)"
    by (rule rsi_screen_sorted)
  show "subseq (map rr_symbol
                  (filter (\<lambda>r. rsi_sort_key (or_default ''oversold'' (rsi_condition rc)) r = k)
                          (rsi_screen self rc)))
               (stock_universe self)" for k
    by (rule rsi_screen_ties)
qed

theorem results_sorted_ties_in_loop_order_witness:
  "map fr_financial_score (fundamental_screen two_equal_scores no_fundamental_criteria) = [100, 100]
   \<and> sorted (rev (map fr_financial_score (fundamental_screen two_equal_scores no_fundamental_criteria)))
   \<and> subseq (map fr_symbol (filter (\<lambda>r. fr_financial_score r = 100)
                 (fundamental_screen two_equal_scores no_fundamental_criteria)))
             (stock_universe two_equal_scores)
   \<and> sorted_wrt (rsi_order (or_default ''oversold'' (rsi_condition no_rsi_criteria)))
                 (rsi_screen two_equal_scores no_rsi_criteria)"
proof -
  have "map fr_financial_score (fundamental_screen two_equal_scores no_fundamental_criteria)
          = map snd (map (\<lambda>r. (fr_symbol r, fr_financial_score r))
              (fundamental_screen two_equal_scores no_fundamental_criteria))"
    by (simp add: comp_def)
  then have "map fr_financial_score (fundamental_screen two_equal_scores no_fundamental_criteria)
          = [100, 100]"
    by (simp only: two_equal_scores_result) simp
  with results_sorted_ties_in_loop_order
         [of two_equal_scores no_fundamental_criteria no_technical_criteria None no_rsi_criteria]
  show ?thesis by blast
qed

end
